theory Spec2Isabelle
  imports Main "HOL-Library.Word"
begin

unbundle bit_operations_syntax

section \<open>The RoCE GID cache (roce\_gid\_cache.c)\<close>

subsection \<open>Data model\<close>

text \<open>
  \<open>union ib_gid\<close> is 16 raw bytes; it is read here as one 128-bit value, \<open>raw[0]\<close> being
  the most significant byte, so that \<open>memcmp\<close> on two gids is equality.  Pointers
  (\<open>struct net_device *\<close>, \<open>void *context\<close>) are 64-bit addresses with \<open>NULL = 0\<close>;
  \<open>enum ib_gid_type\<close> and the \<open>unsigned int seq\<close> are 32-bit words.
\<close>

type_synonym ib_gid = "128 word"
type_synonym ptr = "64 word"

record ib_gid_attr =
  gid_type :: "32 word"
  ndev :: ptr

record ib_roce_gid_cache_entry =
  seq :: "32 word"
  gid :: ib_gid
  attr :: ib_gid_attr
  ctx :: ptr

record ib_roce_gid_cache =
  data_vec :: "ib_roce_gid_cache_entry list"
  active :: bool

text \<open>\<open>cache->sz\<close> is set once, to the length of the allocated \<open>data_vec\<close>.\<close>

definition sz :: "ib_roce_gid_cache \<Rightarrow> int" where
  "sz cache = int (length (data_vec cache))"

text \<open>
  What the code does beyond changing the tables is kept as a trace: the mutex operations
  on a port's table, every call of the driver's \<open>modify_gid\<close> (port, index, gid, attributes
  and the value it returned), the references taken and dropped on net devices (\<open>CallRcuPut\<close>
  is the \<open>dev_put\<close> handed to \<open>call_rcu\<close>, \<open>DevPut\<close> the direct one), \<open>synchronize_rcu\<close>,
  warnings, and the \<open>IB_EVENT_GID_CHANGE\<close> events dispatched.
\<close>

datatype effect =
    MutexLock nat
  | MutexUnlock nat
  | ModifyGid nat int ib_gid ib_gid_attr int
  | CallRcuPut ptr
  | SynchronizeRcu
  | DevPut ptr
  | DevHold ptr
  | GidChangeEvent nat
  | PrWarn

text \<open>
  The device: the driver callback \<open>modify_gid\<close> with the driver's own state \<open>hw\<close>, the
  array \<open>cache.roce_gid_cache\<close> (\<open>None\<close> is the \<open>NULL\<close> array, and an element \<open>None\<close> a
  \<open>NULL\<close> table pointer), and the trace.  \<open>kmalloc_ok\<close> tells whether the \<open>kmalloc\<close> of the
  rcu context in \<open>write_gid\<close> returns memory; it may depend on what has happened so far.
\<close>

record 'h ib_device =
  modify_gid :: "'h \<Rightarrow> nat \<Rightarrow> int \<Rightarrow> ib_gid \<Rightarrow> ib_gid_attr \<Rightarrow> ptr \<Rightarrow> int \<times> ptr \<times> 'h"
  hw :: 'h
  roce_gid_cache :: "ib_roce_gid_cache option list option"
  trace :: "effect list"
  kmalloc_ok :: "effect list \<Rightarrow> bool"

definition zgid :: ib_gid where
  "zgid = 0"

definition zattr :: ib_gid_attr where
  "zattr = \<lparr>gid_type = 0, ndev = 0\<rparr>"

definition roce_gid_type_msk :: ib_gid_attr where
  "roce_gid_type_msk = \<lparr>gid_type = - 1, ndev = 0\<rparr>"

definition roce_gid_type_netdev_msk :: ib_gid_attr where
  "roce_gid_type_netdev_msk = \<lparr>gid_type = - 1, ndev = - 1\<rparr>"

definition ENOSYS :: int where "ENOSYS = 38"
definition ENOSPC :: int where "ENOSPC = 28"
definition EPERM :: int where "EPERM = 1"
definition EINVAL :: int where "EINVAL = 22"
definition EAGAIN :: int where "EAGAIN = 11"
definition ENOENT :: int where "ENOENT = 2"

text \<open>
  \<open>roce_gid_cache[port - 1]\<close>: ports are numbered from 1.  A port outside the array is an
  out-of-bounds read, which the model reports as \<open>None\<close>.
\<close>

definition port_entry :: "'a list \<Rightarrow> nat \<Rightarrow> 'a option" where
  "port_entry arr port =
     (if 1 \<le> port \<and> port \<le> length arr then Some (arr ! (port - 1)) else None)"

text \<open>
  The table a \<open>cache\<close> pointer of port \<open>port\<close> stands for; \<open>None\<close> when dereferencing it
  would fault (no array, port out of the array, \<open>NULL\<close> element).
\<close>

definition the_cache :: "'h ib_device \<Rightarrow> nat \<Rightarrow> ib_roce_gid_cache option" where
  "the_cache dev port =
     (case roce_gid_cache dev of
        None \<Rightarrow> None
      | Some arr \<Rightarrow> (case port_entry arr port of None \<Rightarrow> None | Some p \<Rightarrow> p))"

definition put_cache :: "'h ib_device \<Rightarrow> nat \<Rightarrow> ib_roce_gid_cache \<Rightarrow> 'h ib_device" where
  "put_cache dev port cache =
     dev\<lparr>roce_gid_cache := map_option (\<lambda>arr. arr[port - 1 := Some cache]) (roce_gid_cache dev)\<rparr>"

definition emit :: "effect list \<Rightarrow> 'h ib_device \<Rightarrow> 'h ib_device" where
  "emit es dev = dev\<lparr>trace := trace dev @ es\<rparr>"

subsection \<open>write\_gid\<close>

text \<open>
  Lines 119 to 121: \<open>if (++orig_seq == (unsigned int)-1) orig_seq = 0;\<close> and then the store
  of \<open>orig_seq + 1\<close>.
\<close>

definition next_seq :: "32 word \<Rightarrow> 32 word" where
  "next_seq orig_seq =
     (let orig_seq1 = orig_seq + 1;
          orig_seq2 = (if orig_seq1 = - 1 then 0 else orig_seq1)
      in orig_seq2 + 1)"

text \<open>
  \<open>write_gid\<close> on slot \<open>ix\<close> of the table of \<open>port\<close>.  The slot's sequence number is read,
  the sentinel \<open>-1\<close> is stored, the driver is called, the reference on the old net device
  is dropped (through \<open>call_rcu\<close>, or after a warning and \<open>synchronize_rcu\<close> when the rcu
  context cannot be allocated), the data is stored (the zero gid and attributes when the driver failed),
  and the new sequence number is stored last.  The result is the driver's return value.

  \<open>written_entry\<close> is the slot as \<open>write_gid\<close> leaves it, from the old slot \<open>e\<close>, the
  driver's return value \<open>ret\<close> and the context \<open>new_ctx\<close> it stored.
\<close>

definition written_entry ::
  "ib_roce_gid_cache_entry \<Rightarrow> int \<Rightarrow> ptr \<Rightarrow> ib_gid \<Rightarrow> ib_gid_attr \<Rightarrow> ib_roce_gid_cache_entry" where
  "written_entry e ret new_ctx new_gid new_attr =
     (if ret \<noteq> 0
      then \<lparr>seq = next_seq (seq e), gid = zgid, attr = zattr, ctx = 0\<rparr>
      else \<lparr>seq = next_seq (seq e), gid = new_gid, attr = new_attr, ctx = new_ctx\<rparr>)"

text \<open>
  The effects of one \<open>write_gid\<close>, in program order: the driver call; the release of the
  old net device when there is one and the caller's attributes name another (by \<open>call_rcu\<close>
  when the rcu context was allocated, \<open>alloc_ok\<close>, and otherwise \<open>pr_warn\<close>,
  \<open>synchronize_rcu\<close> and \<open>dev_put\<close>); the \<open>dev_hold\<close> on the stored net device when it is
  not the old one; and the event when the driver succeeded.
\<close>

definition write_effects ::
  "bool \<Rightarrow> nat \<Rightarrow> int \<Rightarrow> ib_roce_gid_cache_entry \<Rightarrow> int \<Rightarrow> ib_gid \<Rightarrow> ib_gid_attr \<Rightarrow>
   effect list" where
  "write_effects alloc_ok port ix e ret new_gid new_attr =
     (let old_net_dev = ndev (attr e);
          stored = ndev (if ret \<noteq> 0 then zattr else new_attr)
      in [ModifyGid port ix new_gid new_attr ret]
         @ (if old_net_dev \<noteq> 0 \<and> old_net_dev \<noteq> ndev new_attr
            then (if alloc_ok then [CallRcuPut old_net_dev]
                  else [PrWarn, SynchronizeRcu, DevPut old_net_dev])
            else [])
         @ (if stored \<noteq> 0 \<and> stored \<noteq> old_net_dev then [DevHold stored] else [])
         @ (if ret = 0 then [GidChangeEvent port] else []))"

text \<open>An index outside \<open>data_vec\<close> is an out-of-bounds access: \<open>None\<close>.\<close>

definition write_gid ::
  "'h ib_device \<Rightarrow> nat \<Rightarrow> int \<Rightarrow> ib_gid \<Rightarrow> ib_gid_attr \<Rightarrow> (int \<times> 'h ib_device) option" where
  "write_gid dev port ix new_gid new_attr =
     (case the_cache dev port of
        None \<Rightarrow> None
      | Some cache \<Rightarrow>
          if \<not> (0 \<le> ix \<and> ix < sz cache) then None
          else
            let e = data_vec cache ! nat ix;
                r = modify_gid dev (hw dev) port ix new_gid new_attr (ctx e);
                ret = fst r;
                e' = written_entry e ret (fst (snd r)) new_gid new_attr;
                cache' = cache\<lparr>data_vec := (data_vec cache)[nat ix := e']\<rparr>
            in Some (ret,
                 emit (write_effects (kmalloc_ok dev (trace dev)) port ix e ret new_gid new_attr)
                   ((put_cache dev port cache')\<lparr>hw := snd (snd r)\<rparr>)))"

text \<open>Slot \<open>ix\<close> of the table of \<open>port\<close>, when there is one.\<close>

definition slot :: "'h ib_device \<Rightarrow> nat \<Rightarrow> int \<Rightarrow> ib_roce_gid_cache_entry option" where
  "slot dev port ix =
     (case the_cache dev port of
        None \<Rightarrow> None
      | Some cache \<Rightarrow> if 0 \<le> ix \<and> ix < sz cache then Some (data_vec cache ! nat ix) else None)"

text \<open>\<open>b\<close> is after \<open>a\<close> in the wrapping order of a 32-bit counter.\<close>

definition seq_after :: "32 word \<Rightarrow> 32 word \<Rightarrow> bool" where
  "seq_after b a = (0 < sint (b - a))"

subsection \<open>find\_gid\<close>

text \<open>
  \<open>find_gid\<close> reads each slot's sequence number twice, before and after comparing the
  slot's data, and takes no lock: a writer on another CPU may store between the two
  reads.  The scan is therefore given \<open>reread\<close>, the value the second
  \<open>ACCESS_ONCE(cache->data_vec[i].seq)\<close> returns for slot \<open>i\<close>.  \<open>val\<close> may be \<open>NULL\<close>
  (\<open>roce_add_gid\<close> passes it with the zero mask); it is dereferenced only where the mask
  has the field set, and dereferencing \<open>NULL\<close> is the result \<open>None\<close>.  The scan returns
  the index found, or \<open>-1\<close>.
\<close>

fun find_gid_from ::
  "(nat \<Rightarrow> 32 word) \<Rightarrow> ib_gid \<Rightarrow> ib_gid_attr option \<Rightarrow> ib_gid_attr \<Rightarrow> nat \<Rightarrow>
   ib_roce_gid_cache_entry list \<Rightarrow> int option" where
  "find_gid_from reread g val msk i [] = Some (- 1)"
| "find_gid_from reread g val msk i (e # es) =
     (if seq e = - 1 then find_gid_from reread g val msk (Suc i) es
      else if gid_type msk \<noteq> 0 \<and> val = None then None
      else if gid_type msk \<noteq> 0 \<and> gid_type (attr e) \<noteq> (gid_type (the val) AND gid_type msk)
        then find_gid_from reread g val msk (Suc i) es
      else if g \<noteq> gid e then find_gid_from reread g val msk (Suc i) es
      else if ndev msk \<noteq> 0 \<and> val = None then None
      else if ndev msk \<noteq> 0 \<and> ndev (attr e) \<noteq> (ndev msk AND ndev (the val))
        then find_gid_from reread g val msk (Suc i) es
      else if seq e = reread i then Some (int i)
      else find_gid_from reread g val msk (Suc i) es)"

definition find_gid ::
  "(nat \<Rightarrow> 32 word) \<Rightarrow> ib_roce_gid_cache \<Rightarrow> ib_gid \<Rightarrow> ib_gid_attr option \<Rightarrow> ib_gid_attr \<Rightarrow>
   int option" where
  "find_gid reread cache g val msk = find_gid_from reread g val msk 0 (data_vec cache)"

text \<open>
  With no writer running (the caller holds the table's mutex and every writer takes it),
  the second read returns what the first one did.
\<close>

definition quiescent :: "ib_roce_gid_cache \<Rightarrow> nat \<Rightarrow> 32 word" where
  "quiescent cache i = seq (data_vec cache ! i)"

subsection \<open>Default gids\<close>

text \<open>
  \<open>make_default_gid\<close>: the subnet prefix \<open>fe80::/64\<close> in the upper eight bytes, and in the
  lower eight what \<open>addrconf_ifid_eui48\<close> (of the kernel's IPv6 code) writes for the
  device; that function is the parameter \<open>eui48\<close>.
\<close>

definition make_default_gid :: "(ptr \<Rightarrow> 64 word) \<Rightarrow> ptr \<Rightarrow> ib_gid" where
  "make_default_gid eui48 dev = push_bit 64 (0xfe80000000000000 :: 128 word) OR ucast (eui48 dev)"

subsection \<open>The operations on a port's table\<close>

definition roce_add_gid ::
  "'h ib_device \<Rightarrow> nat \<Rightarrow> ib_gid \<Rightarrow> ib_gid_attr \<Rightarrow> (int \<times> 'h ib_device) option" where
  "roce_add_gid dev port g a =
     (case roce_gid_cache dev of
        None \<Rightarrow> Some (- ENOSYS, dev)
      | Some arr \<Rightarrow>
          (case the_cache dev port of
             None \<Rightarrow> None
           | Some cache \<Rightarrow>
               if \<not> active cache then Some (- ENOSYS, dev)
               else
                 let d1 = emit [MutexLock port] dev in
                 (case find_gid (quiescent cache) cache g (Some a) roce_gid_type_msk of
                    None \<Rightarrow> None
                  | Some ix \<Rightarrow>
                      if ix \<ge> 0 then Some (0, emit [MutexUnlock port] d1)
                      else
                        (case find_gid (quiescent cache) cache zgid None zattr of
                           None \<Rightarrow> None
                         | Some ix' \<Rightarrow>
                             if ix' < 0 then Some (- ENOSPC, emit [MutexUnlock port] d1)
                             else
                               (case write_gid d1 port ix' g a of
                                  None \<Rightarrow> None
                                | Some (r, d2) \<Rightarrow> Some (0, emit [MutexUnlock port] d2))))))"

definition roce_del_gid ::
  "(ptr \<Rightarrow> 64 word) \<Rightarrow> 'h ib_device \<Rightarrow> nat \<Rightarrow> ib_gid \<Rightarrow> ib_gid_attr \<Rightarrow> (int \<times> 'h ib_device) option" where
  "roce_del_gid eui48 dev port g a =
     (case roce_gid_cache dev of
        None \<Rightarrow> Some (0, dev)
      | Some arr \<Rightarrow>
          (case the_cache dev port of
             None \<Rightarrow> None
           | Some cache \<Rightarrow>
               if \<not> active cache then Some (- ENOSYS, dev)
               else if ndev a \<noteq> 0 \<and> g = make_default_gid eui48 (ndev a) then Some (- EPERM, dev)
               else
                 let d1 = emit [MutexLock port] dev in
                 (case find_gid (quiescent cache) cache g (Some a) roce_gid_type_netdev_msk of
                    None \<Rightarrow> None
                  | Some ix \<Rightarrow>
                      if ix < 0 then Some (0, emit [MutexUnlock port] d1)
                      else
                        (case write_gid d1 port ix zgid zattr of
                           None \<Rightarrow> None
                         | Some (r, d2) \<Rightarrow> Some (0, emit [MutexUnlock port] d2)))))"

text \<open>
  The loop of \<open>roce_del_all_netdev_gids\<close>, over the indices \<open>0 .. sz - 1\<close> in order; each
  iteration reads the slot as the writes before it have left it.
\<close>

fun del_all_loop :: "'h ib_device \<Rightarrow> nat \<Rightarrow> ptr \<Rightarrow> nat list \<Rightarrow> 'h ib_device option" where
  "del_all_loop dev port nd [] = Some dev"
| "del_all_loop dev port nd (ix # ixs) =
     (case slot dev port (int ix) of
        None \<Rightarrow> None
      | Some e \<Rightarrow>
          if ndev (attr e) = nd
          then (case write_gid dev port (int ix) zgid zattr of
                  None \<Rightarrow> None
                | Some (r, d') \<Rightarrow> del_all_loop d' port nd ixs)
          else del_all_loop dev port nd ixs)"

definition roce_del_all_netdev_gids ::
  "'h ib_device \<Rightarrow> nat \<Rightarrow> ptr \<Rightarrow> (int \<times> 'h ib_device) option" where
  "roce_del_all_netdev_gids dev port nd =
     (case roce_gid_cache dev of
        None \<Rightarrow> Some (0, dev)
      | Some arr \<Rightarrow>
          (case the_cache dev port of
             None \<Rightarrow> None
           | Some cache \<Rightarrow>
               if \<not> active cache then Some (- ENOSYS, dev)
               else
                 (case del_all_loop (emit [MutexLock port] dev) port nd
                         [0 ..< length (data_vec cache)] of
                    None \<Rightarrow> None
                  | Some d' \<Rightarrow> Some (0, emit [MutexUnlock port] d'))))"

text \<open>
  \<open>roce_gid_cache_get_gid\<close> takes no lock either; \<open>reread\<close> is the value of its second
  read of the slot's sequence number.  The caller's buffers are \<open>gid_buf\<close> and \<open>attr_buf\<close>
  (\<open>None\<close> when the caller passes \<open>attr = NULL\<close>); the result holds the return value and
  the buffers as the call leaves them.
\<close>

definition roce_gid_cache_get_gid ::
  "32 word \<Rightarrow> 'h ib_device \<Rightarrow> nat \<Rightarrow> int \<Rightarrow> ib_gid \<Rightarrow> ib_gid_attr option \<Rightarrow>
   (int \<times> ib_gid \<times> ib_gid_attr option) option" where
  "roce_gid_cache_get_gid reread dev port index gid_buf attr_buf =
     (case roce_gid_cache dev of
        None \<Rightarrow> Some (- EINVAL, gid_buf, attr_buf)
      | Some arr \<Rightarrow>
          (case the_cache dev port of
             None \<Rightarrow> None
           | Some cache \<Rightarrow>
               if \<not> active cache then Some (- ENOSYS, gid_buf, attr_buf)
               else if index < 0 \<or> index \<ge> sz cache then Some (- EINVAL, gid_buf, attr_buf)
               else
                 let orig_seq = seq (data_vec cache ! nat index);
                     local_gid = gid (data_vec cache ! nat index);
                     local_attr = attr (data_vec cache ! nat index)
                 in if orig_seq = - 1 \<or> orig_seq \<noteq> reread
                    then Some (- EAGAIN, gid_buf, attr_buf)
                    else Some (0, local_gid, map_option (\<lambda>_. local_attr) attr_buf)))"

text \<open>
  The loop of \<open>roce_gid_cache_set_default_gid\<close>: \<open>i\<close> runs over the gid types below
  \<open>IB_GID_TYPE_SIZE\<close> (an enumerator of \<open>ib_verbs.h\<close>, here the parameter
  \<open>gid_type_size\<close>, at most the 64 bits of the mask), \<open>success\<close> is the slot written next.
\<close>

function set_default_loop ::
  "nat \<Rightarrow> 'h ib_device \<Rightarrow> nat \<Rightarrow> ptr \<Rightarrow> ib_gid \<Rightarrow> 64 word \<Rightarrow> nat \<Rightarrow> nat \<Rightarrow> 'h ib_device option" where
  "set_default_loop gid_type_size dev port nd g gid_type_mask i success =
     (if i < gid_type_size then
        (if push_bit i (1 :: 64 word) AND NOT gid_type_mask \<noteq> 0
         then set_default_loop gid_type_size dev port nd g gid_type_mask (i + 1) success
         else
           (case write_gid dev port (int success) zgid zattr of
              None \<Rightarrow> None
            | Some (r1, d1) \<Rightarrow>
                if r1 \<noteq> 0
                then set_default_loop gid_type_size (emit [PrWarn] d1) port nd g gid_type_mask
                       (i + 1) success
                else
                  (case write_gid d1 port (int success) g \<lparr>gid_type = of_nat i, ndev = nd\<rparr> of
                     None \<Rightarrow> None
                   | Some (r2, d2) \<Rightarrow>
                       if r2 \<noteq> 0
                       then set_default_loop gid_type_size (emit [PrWarn] d2) port nd g
                              gid_type_mask (i + 1) success
                       else set_default_loop gid_type_size d2 port nd g gid_type_mask
                              (i + 1) (success + 1))))
      else Some dev)"
  by pat_completeness auto
termination
  by (relation "measure (\<lambda>(n, dev, port, nd, g, m, i, success). n - i)") auto

declare set_default_loop.simps [simp del]

text \<open>
  \<open>roce_gid_cache_set_default_gid\<close> reads \<open>roce_gid_cache[port - 1]\<close> without testing the
  array, returns when that pointer is \<open>NULL\<close>, and otherwise runs the loop.  It returns
  nothing; the result is the device afterwards.
\<close>

definition roce_gid_cache_set_default_gid ::
  "(ptr \<Rightarrow> 64 word) \<Rightarrow> nat \<Rightarrow> 'h ib_device \<Rightarrow> nat \<Rightarrow> ptr \<Rightarrow> 64 word \<Rightarrow> 'h ib_device option" where
  "roce_gid_cache_set_default_gid eui48 gid_type_size dev port nd gid_type_mask =
     (case roce_gid_cache dev of
        None \<Rightarrow> None
      | Some arr \<Rightarrow>
          (case port_entry arr port of
             None \<Rightarrow> None
           | Some None \<Rightarrow> Some dev
           | Some (Some cache) \<Rightarrow>
               set_default_loop gid_type_size dev port nd (make_default_gid eui48 nd)
                 gid_type_mask 0 0))"

text \<open>
  A trace keeps the locking discipline when every driver call on a port's table happens
  while that table's mutex is held.  \<open>held\<close> lists the ports whose mutex is held.
\<close>

fun writes_locked :: "nat list \<Rightarrow> effect list \<Rightarrow> bool" where
  "writes_locked held [] = True"
| "writes_locked held (MutexLock p # es) = writes_locked (p # held) es"
| "writes_locked held (MutexUnlock p # es) = writes_locked (remove1 p held) es"
| "writes_locked held (ModifyGid p ix g a r # es) = (p \<in> set held \<and> writes_locked held es)"
| "writes_locked held (CallRcuPut n # es) = writes_locked held es"
| "writes_locked held (SynchronizeRcu # es) = writes_locked held es"
| "writes_locked held (DevPut n # es) = writes_locked held es"
| "writes_locked held (DevHold n # es) = writes_locked held es"
| "writes_locked held (GidChangeEvent p # es) = writes_locked held es"
| "writes_locked held (PrWarn # es) = writes_locked held es"

section \<open>Net device notifications (roce\_gid\_mgmt.c)\<close>

datatype roce_netdev_callback = add_netdev_ips | del_netdev_ips

datatype roce_netdev_filter = is_eth_port_of_netdev | pass_all_filter

text \<open>A command of a work item; \<open>None\<close> is the \<open>NULL\<close> of the zero-initialised array.\<close>

record netdev_event_work_cmd =
  cb :: "roce_netdev_callback option"
  filter_fn :: "roce_netdev_filter option"

record netdev_event_work =
  cmds :: "netdev_event_work_cmd list"
  work_ndev :: ptr

definition ROCE_NETDEV_CALLBACK_SZ :: nat where
  "ROCE_NETDEV_CALLBACK_SZ = 2"

definition add_cmd :: netdev_event_work_cmd where
  "add_cmd = \<lparr>cb = Some add_netdev_ips, filter_fn = Some is_eth_port_of_netdev\<rparr>"

definition del_cmd :: netdev_event_work_cmd where
  "del_cmd = \<lparr>cb = Some del_netdev_ips, filter_fn = Some pass_all_filter\<rparr>"

definition zero_cmd :: netdev_event_work_cmd where
  "zero_cmd = \<lparr>cb = None, filter_fn = None\<rparr>"

text \<open>
  The notifications of the net device chain: the four the switch of \<open>netdevice_event\<close>
  names, and every other code.
\<close>

datatype netdev_notification =
    NETDEV_REGISTER
  | NETDEV_UP
  | NETDEV_UNREGISTER
  | NETDEV_CHANGEADDR
  | NETDEV_DOWN
  | NETDEV_OTHER nat

datatype netreg_state =
    NETREG_UNINITIALIZED
  | NETREG_REGISTERED
  | NETREG_UNREGISTERING
  | NETREG_UNREGISTERED
  | NETREG_RELEASED
  | NETREG_DUMMY

fun netreg_val :: "netreg_state \<Rightarrow> nat" where
  "netreg_val NETREG_UNINITIALIZED = 0"
| "netreg_val NETREG_REGISTERED = 1"
| "netreg_val NETREG_UNREGISTERING = 2"
| "netreg_val NETREG_UNREGISTERED = 3"
| "netreg_val NETREG_RELEASED = 4"
| "netreg_val NETREG_DUMMY = 5"

text \<open>The switch of \<open>netdevice_event\<close>: the commands, or \<open>None\<close> for \<open>return NOTIFY_DONE\<close>.\<close>

fun event_cmds :: "netdev_notification \<Rightarrow> netreg_state \<Rightarrow> netdev_event_work_cmd list option" where
  "event_cmds NETDEV_REGISTER rs = Some [add_cmd, zero_cmd]"
| "event_cmds NETDEV_UP rs = Some [add_cmd, zero_cmd]"
| "event_cmds NETDEV_UNREGISTER rs =
     (if netreg_val rs < netreg_val NETREG_UNREGISTERED then Some [del_cmd, zero_cmd] else None)"
| "event_cmds NETDEV_CHANGEADDR rs = Some [del_cmd, add_cmd]"
| "event_cmds _ rs = None"

text \<open>
  \<open>netdevice_event\<close>: the work item queued on \<open>roce_gid_mgmt_wq\<close>, if any.  \<open>alloc_ok\<close>
  tells whether \<open>kmalloc\<close> returned memory; \<open>reg_state\<close> is \<open>ndev->reg_state\<close>.  A queued
  item holds a reference on the device.
\<close>

definition netdevice_event ::
  "bool \<Rightarrow> netdev_notification \<Rightarrow> ptr \<Rightarrow> netreg_state \<Rightarrow> netdev_event_work option" where
  "netdevice_event alloc_ok event nd reg_state =
     (case event_cmds event reg_state of
        None \<Rightarrow> None
      | Some cs \<Rightarrow> if \<not> alloc_ok then None else Some \<lparr>cmds = cs, work_ndev = nd\<rparr>)"

text \<open>What the worker does for a work item, in order.\<close>

datatype worker_step =
    RtnlLock
  | EnumRocePorts ptr "roce_netdev_filter option" roce_netdev_callback
  | RtnlUnlock
  | WorkDevPut ptr

text \<open>
  The loop of \<open>netdevice_event_work_handler\<close> stops at the end of the array or at the
  first command without a callback.
\<close>

fun handler_loop :: "ptr \<Rightarrow> netdev_event_work_cmd list \<Rightarrow> worker_step list" where
  "handler_loop nd [] = []"
| "handler_loop nd (c # cs) =
     (case cb c of
        None \<Rightarrow> []
      | Some f \<Rightarrow> [RtnlLock, EnumRocePorts nd (filter_fn c) f, RtnlUnlock] @ handler_loop nd cs)"

definition netdevice_event_work_handler :: "netdev_event_work \<Rightarrow> worker_step list" where
  "netdevice_event_work_handler work =
     handler_loop (work_ndev work) (take ROCE_NETDEV_CALLBACK_SZ (cmds work))
     @ [WorkDevPut (work_ndev work)]"

subsection \<open>Concrete devices used as examples\<close>

definition zentry :: ib_roce_gid_cache_entry where
  "zentry = \<lparr>seq = 0, gid = zgid, attr = zattr, ctx = 0\<rparr>"

text \<open>
  \<open>alloc_roce_gid_cache\<close> when both allocations succeed: a zeroed table of \<open>n\<close> slots,
  not active.
\<close>

definition alloc_roce_gid_cache :: "nat \<Rightarrow> ib_roce_gid_cache" where
  "alloc_roce_gid_cache n = \<lparr>data_vec = replicate n zentry, active = False\<rparr>"

text \<open>A driver that accepts every gid, and one that rejects every gid.\<close>

definition modify_ok :: "unit \<Rightarrow> nat \<Rightarrow> int \<Rightarrow> ib_gid \<Rightarrow> ib_gid_attr \<Rightarrow> ptr \<Rightarrow> int \<times> ptr \<times> unit" where
  "modify_ok h port ix g a c = (0, c, h)"

definition modify_fail :: "unit \<Rightarrow> nat \<Rightarrow> int \<Rightarrow> ib_gid \<Rightarrow> ib_gid_attr \<Rightarrow> ptr \<Rightarrow> int \<times> ptr \<times> unit" where
  "modify_fail h port ix g a c = (- 5, c, h)"

definition dev_of ::
  "(unit \<Rightarrow> nat \<Rightarrow> int \<Rightarrow> ib_gid \<Rightarrow> ib_gid_attr \<Rightarrow> ptr \<Rightarrow> int \<times> ptr \<times> unit) \<Rightarrow>
   ib_roce_gid_cache option list option \<Rightarrow> unit ib_device" where
  "dev_of f tabs =
     \<lparr>modify_gid = f, hw = (), roce_gid_cache = tabs, trace = [], kmalloc_ok = (\<lambda>_. True)\<rparr>"

text \<open>One port, two zeroed slots, active.\<close>

definition cache2 :: ib_roce_gid_cache where
  "cache2 = (alloc_roce_gid_cache 2)\<lparr>active := True\<rparr>"

definition dev2 :: "unit ib_device" where
  "dev2 = dev_of modify_ok (Some [Some cache2])"

definition attrA :: ib_gid_attr where
  "attrA = \<lparr>gid_type = 0, ndev = 4096\<rparr>"

section \<open>Definitions on the side of the specification, and examples\<close>

text \<open>
  The conditions under which \<open>find\<close> accepts slot \<open>i\<close>: the first read did not return the
  sentinel, the kind matches under the mask, the identifier is equal, the interface
  matches under the mask (pointer value ANDed with the mask), and the second read returned
  the same sequence number as the first.
\<close>

definition slot_qualifies ::
  "(nat \<Rightarrow> 32 word) \<Rightarrow> ib_gid \<Rightarrow> ib_gid_attr \<Rightarrow> ib_gid_attr \<Rightarrow> nat \<Rightarrow>
   ib_roce_gid_cache_entry \<Rightarrow> bool" where
  "slot_qualifies reread g val msk i e \<longleftrightarrow>
     seq e \<noteq> - 1 \<and>
     (gid_type msk = 0 \<or> gid_type (attr e) = (gid_type val AND gid_type msk)) \<and>
     gid e = g \<and>
     (ndev msk = 0 \<or> ndev (attr e) = (ndev msk AND ndev val)) \<and>
     reread i = seq e"

text \<open>
  A table for the examples of the scan: three slots holding the same gid and attributes;
  slot 1 carries the sentinel, and \<open>reread3\<close> describes a reader under whose feet slot 0
  is rewritten (its second read returns 6, not 4).
\<close>

definition gidA :: ib_gid where
  "gidA = 0x20010db8000000000000000000000001"

definition cache3 :: ib_roce_gid_cache where
  "cache3 = \<lparr>data_vec =
       [\<lparr>seq = 4, gid = gidA, attr = attrA, ctx = 0\<rparr>,
        \<lparr>seq = - 1, gid = gidA, attr = attrA, ctx = 0\<rparr>,
        \<lparr>seq = 2, gid = gidA, attr = attrA, ctx = 0\<rparr>],
     active = True\<rparr>"

definition reread3 :: "nat \<Rightarrow> 32 word" where
  "reread3 i = (if i = 0 then 6 else quiescent cache3 i)"

text \<open>
  More example devices: one port whose table is \<open>cache3\<close> (no slot with the zero gid); one
  port with two zeroed slots behind a driver that rejects every gid; and a second gid.
\<close>

definition dev3 :: "unit ib_device" where
  "dev3 = dev_of modify_ok (Some [Some cache3])"

definition dev2_fail :: "unit ib_device" where
  "dev2_fail = dev_of modify_fail (Some [Some cache2])"

definition gidB :: ib_gid where
  "gidB = 0x20010db8000000000000000000000002"

text \<open>
  A device whose cache array was never allocated, a device whose table is allocated but
  not active, and an \<open>addrconf_ifid_eui48\<close> that writes zero bytes.
\<close>

definition dev_none :: "unit ib_device" where
  "dev_none = dev_of modify_ok None"

definition dev_inactive :: "unit ib_device" where
  "dev_inactive = dev_of modify_ok (Some [Some (cache2\<lparr>active := False\<rparr>)])"

definition eui_zero :: "ptr \<Rightarrow> 64 word" where
  "eui_zero nd = 0"

text \<open>
  SetDefault described kind by kind, in the words of the specification with the condition
  on the second write made explicit: for each kind of the list, in the order of the list,
  write the empty entry into the slot numbered by the success counter; when that write
  succeeded, write the default identifier with this kind into the same slot; advance the
  counter when both writes succeeded; go on with the next kind whatever happened.
\<close>

fun set_default_kinds ::
  "'h ib_device \<Rightarrow> nat \<Rightarrow> ptr \<Rightarrow> ib_gid \<Rightarrow> nat list \<Rightarrow> nat \<Rightarrow> 'h ib_device option" where
  "set_default_kinds dev port nd g [] success = Some dev"
| "set_default_kinds dev port nd g (k # ks) success =
     (case write_gid dev port (int success) zgid zattr of
        None \<Rightarrow> None
      | Some (r1, d1) \<Rightarrow>
          if r1 \<noteq> 0 then set_default_kinds (emit [PrWarn] d1) port nd g ks success
          else
            (case write_gid d1 port (int success) g \<lparr>gid_type = of_nat k, ndev = nd\<rparr> of
               None \<Rightarrow> None
             | Some (r2, d2) \<Rightarrow>
                 if r2 \<noteq> 0 then set_default_kinds (emit [PrWarn] d2) port nd g ks success
                 else set_default_kinds d2 port nd g ks (success + 1)))"

text \<open>The kinds below \<open>n\<close> whose bit is set in the mask, in ascending order.\<close>

definition kinds_in_mask :: "nat \<Rightarrow> 64 word \<Rightarrow> nat list" where
  "kinds_in_mask n gid_type_mask = filter (\<lambda>k. bit gid_type_mask k) [0 ..< n]"

text \<open>
  A driver that rejects every non-zero gid of type 0 and accepts everything else, and a
  device with two zeroed slots behind it.
\<close>

definition modify_rej0 :: "unit \<Rightarrow> nat \<Rightarrow> int \<Rightarrow> ib_gid \<Rightarrow> ib_gid_attr \<Rightarrow> ptr \<Rightarrow> int \<times> ptr \<times> unit" where
  "modify_rej0 h port ix g a c = (if g \<noteq> 0 \<and> gid_type a = 0 then - 5 else 0, c, h)"

definition dev2_rej0 :: "unit ib_device" where
  "dev2_rej0 = dev_of modify_rej0 (Some [Some cache2])"

text \<open>
  A one-slot table whose slot has been written often enough for its sequence number to
  have gone from \<open>0xfffffffe\<close> to 1 and on to \<open>0xfffffffd\<close>.
\<close>

definition cache_wrap :: ib_roce_gid_cache where
  "cache_wrap = \<lparr>data_vec = [\<lparr>seq = 0xfffffffd, gid = zgid, attr = zattr, ctx = 0\<rparr>],
     active = True\<rparr>"

definition dev_wrap :: "unit ib_device" where
  "dev_wrap = dev_of modify_ok (Some [Some cache_wrap])"

section \<open>Basic facts about write\_gid\<close>

lemma the_cache_put_cache:
  "the_cache dev port = Some c \<Longrightarrow> the_cache (put_cache dev port c') port = Some c'"
  by (auto simp: the_cache_def put_cache_def port_entry_def split: option.splits if_splits)

lemma the_cache_emit [simp]: "the_cache (emit es dev) port = the_cache dev port"
  by (simp add: the_cache_def emit_def)

lemma the_cache_hw [simp]: "the_cache (dev\<lparr>hw := h\<rparr>) port = the_cache dev port"
  by (simp add: the_cache_def)

lemma write_gid_SomeD:
  assumes "write_gid dev port ix g a = Some (ret, dev')"
  shows "\<exists>cache. the_cache dev port = Some cache \<and> 0 \<le> ix \<and> ix < sz cache \<and>
           ret = fst (modify_gid dev (hw dev) port ix g a (ctx (data_vec cache ! nat ix))) \<and>
           the_cache dev' port = Some (cache\<lparr>data_vec := (data_vec cache)[nat ix :=
               written_entry (data_vec cache ! nat ix) ret
                 (fst (snd (modify_gid dev (hw dev) port ix g a (ctx (data_vec cache ! nat ix))))) g a]\<rparr>)"
proof (cases "the_cache dev port")
  case None
  with assms show ?thesis by (simp add: write_gid_def)
next
  case (Some cache)
  show ?thesis
  proof (cases "0 \<le> ix \<and> ix < sz cache")
    case False
    with assms Some show ?thesis by (simp add: write_gid_def)
  next
    case True
    with assms Some show ?thesis
      by (simp add: write_gid_def Let_def the_cache_put_cache[OF Some])
         (auto simp: the_cache_put_cache[OF Some])
  qed
qed

lemma write_gid_slot:
  assumes "write_gid dev port ix g a = Some (ret, dev')"
  shows "\<exists>e e'. slot dev port ix = Some e \<and> slot dev' port ix = Some e' \<and>
           seq e' = next_seq (seq e)"
proof -
  from write_gid_SomeD[OF assms] obtain cache c' where
    c: "the_cache dev port = Some cache" "0 \<le> ix" "ix < sz cache"
    and c': "the_cache dev' port = Some (cache\<lparr>data_vec := (data_vec cache)[nat ix :=
               written_entry (data_vec cache ! nat ix) ret c' g a]\<rparr>)"
    by blast
  from c have "nat ix < length (data_vec cache)" by (simp add: sz_def)
  with c c' show ?thesis
    by (simp add: slot_def sz_def written_entry_def)
qed

lemma word_plus_eq: "(v :: 32 word) + a = b \<longleftrightarrow> v = b - a"
  by auto

lemma plus1_sentinel: "(v :: 32 word) + 1 = - 1 \<longleftrightarrow> v = - 2"
  by (simp add: word_plus_eq)

lemma next_seq_plus2: "v \<noteq> - 2 \<Longrightarrow> next_seq v = v + 2"
  by (simp add: next_seq_def Let_def plus1_sentinel)

lemma next_seq_wrap: "next_seq (- 2) = 1"
  by (simp add: next_seq_def Let_def)

lemma next_seq_not_sentinel: "v \<noteq> - 3 \<Longrightarrow> next_seq v \<noteq> - 1"
proof (cases "v = - 2")
  case True
  then show ?thesis by (simp add: next_seq_wrap)
next
  case False
  assume v: "v \<noteq> - 3"
  have "v + 2 \<noteq> - 1"
    using v by (simp add: word_plus_eq)
  with False show ?thesis by (simp add: next_seq_plus2)
qed

lemma next_seq_sentinel: "next_seq (- 3) = - 1"
  by (simp add: next_seq_def Let_def)

lemma next_seq_after: "seq_after (next_seq v) v"
proof (cases "v = - 2")
  case True
  then show ?thesis by (simp add: next_seq_wrap seq_after_def)
next
  case False
  then show ?thesis by (simp add: next_seq_plus2 seq_after_def)
qed

section \<open>Sequence numbers published by a write\<close>

lemma the_cache_dev2: "the_cache dev2 (Suc 0) = Some cache2"
  by (simp add: dev2_def dev_of_def the_cache_def port_entry_def)

lemma write_gid_Some:
  assumes "the_cache dev port = Some cache" "0 \<le> ix" "ix < sz cache"
  shows "write_gid dev port ix g a =
    Some (fst (modify_gid dev (hw dev) port ix g a (ctx (data_vec cache ! nat ix))),
      emit (write_effects (kmalloc_ok dev (trace dev)) port ix (data_vec cache ! nat ix)
              (fst (modify_gid dev (hw dev) port ix g a (ctx (data_vec cache ! nat ix)))) g a)
        ((put_cache dev port (cache\<lparr>data_vec := (data_vec cache)[nat ix :=
             written_entry (data_vec cache ! nat ix)
               (fst (modify_gid dev (hw dev) port ix g a (ctx (data_vec cache ! nat ix))))
               (fst (snd (modify_gid dev (hw dev) port ix g a (ctx (data_vec cache ! nat ix)))))
               g a]\<rparr>))
         \<lparr>hw := snd (snd (modify_gid dev (hw dev) port ix g a (ctx (data_vec cache ! nat ix))))\<rparr>))"
  using assms by (simp add: write_gid_def Let_def)

lemma slot_after_write:
  assumes "the_cache dev port = Some cache" "0 \<le> ix" "ix < sz cache"
  shows "slot (snd (the (write_gid dev port ix g a))) port ix =
    Some (written_entry (data_vec cache ! nat ix)
               (fst (modify_gid dev (hw dev) port ix g a (ctx (data_vec cache ! nat ix))))
               (fst (snd (modify_gid dev (hw dev) port ix g a (ctx (data_vec cache ! nat ix)))))
               g a)"
  using assms
  by (simp add: write_gid_Some[OF assms] slot_def the_cache_put_cache[OF assms(1)] sz_def)

lemma modify_gid_dev2 [simp]: "modify_gid dev2 = modify_ok"
  by (simp add: dev2_def dev_of_def)

lemma cache2_eq: "cache2 = \<lparr>data_vec = [zentry, zentry], active = True\<rparr>"
  by (simp add: cache2_def alloc_roce_gid_cache_def numeral_2_eq_2)

lemma sz_cache2 [simp]: "sz cache2 = 2"
  by (simp add: sz_def cache2_eq)

lemma the_cache_dev_wrap: "the_cache dev_wrap (Suc 0) = Some cache_wrap"
  by (simp add: dev_wrap_def dev_of_def the_cache_def port_entry_def)

lemma write_gid_dev2_seq:
  "write_gid dev2 1 0 gidA attrA \<noteq> None \<and>
   seq (the (slot dev2 1 0)) = 0 \<and>
   seq (the (slot (snd (the (write_gid dev2 1 0 gidA attrA))) 1 0)) = 2"
proof -
  have c: "the_cache dev2 (Suc 0) = Some cache2"
    by (rule the_cache_dev2)
  have b: "(0::int) \<le> 0" "0 < sz cache2"
    by simp_all
  have s0: "slot dev2 1 0 = Some zentry"
    by (simp add: slot_def c cache2_eq sz_def)
  have s1: "seq (the (slot (snd (the (write_gid dev2 1 0 gidA attrA))) 1 0)) = 2"
    by (simp add: slot_after_write[OF c b] written_entry_def modify_ok_def
          cache2_eq zentry_def next_seq_def Let_def)
  have "write_gid dev2 1 0 gidA attrA \<noteq> None"
    by (simp add: write_gid_Some[OF c b])
  with s0 s1 show ?thesis by (simp add: zentry_def)
qed

lemma write_gid_dev_wrap_seq:
  "write_gid dev_wrap 1 0 gidA attrA \<noteq> None \<and>
   seq (the (slot dev_wrap 1 0)) = 0xfffffffd \<and>
   seq (the (slot (snd (the (write_gid dev_wrap 1 0 gidA attrA))) 1 0)) = - 1"
proof -
  have c: "the_cache dev_wrap (Suc 0) = Some cache_wrap"
    by (rule the_cache_dev_wrap)
  have b: "(0::int) \<le> 0" "0 < sz cache_wrap"
    by (simp_all add: sz_def cache_wrap_def)
  have s0: "seq (the (slot dev_wrap 1 0)) = 0xfffffffd"
    by (simp add: slot_def c cache_wrap_def sz_def)
  have mg: "modify_gid dev_wrap = modify_ok"
    by (simp add: dev_wrap_def dev_of_def)
  have s1: "seq (the (slot (snd (the (write_gid dev_wrap 1 0 gidA attrA))) 1 0)) = - 1"
    by (simp add: slot_after_write[OF c b] mg written_entry_def modify_ok_def
          cache_wrap_def next_seq_def Let_def)
  have "write_gid dev_wrap 1 0 gidA attrA \<noteq> None"
    by (simp add: write_gid_Some[OF c b])
  with s0 s1 show ?thesis by simp
qed

text \<open>
  C1 (does not hold).  \<open>write_gid\<close> increments the sequence number it read, tests that
  value against the sentinel, and then stores one more than it (lines 119 to 121).  So a
  completed write of a fresh slot (sequence number 0) publishes 2, not \<open>0 + 1\<close>, and a
  completed write of a slot whose sequence number is \<open>0xfffffffd\<close> publishes the in-flight
  sentinel \<open>-1\<close> as the final sequence number.
\<close>

theorem write_gid_seq_bug:
  "write_gid dev2 1 0 gidA attrA \<noteq> None \<and>
   seq (the (slot dev2 1 0)) = 0 \<and>
   seq (the (slot (snd (the (write_gid dev2 1 0 gidA attrA))) 1 0)) = 2 \<and>
   seq (the (slot (snd (the (write_gid dev2 1 0 gidA attrA))) 1 0)) \<noteq> seq (the (slot dev2 1 0)) + 1 \<and>
   write_gid dev_wrap 1 0 gidA attrA \<noteq> None \<and>
   seq (the (slot dev_wrap 1 0)) = 0xfffffffd \<and>
   seq (the (slot (snd (the (write_gid dev_wrap 1 0 gidA attrA))) 1 0)) = - 1"
  using write_gid_dev2_seq write_gid_dev_wrap_seq by simp

section \<open>The scan of find\_gid\<close>

lemma find_gid_from_step:
  "find_gid_from reread g (Some val) msk k (e # es) =
     (if slot_qualifies reread g val msk k e then Some (int k)
      else find_gid_from reread g (Some val) msk (Suc k) es)"
  by (auto simp: slot_qualifies_def)

lemma find_gid_from_mask0:
  "gid_type msk = 0 \<Longrightarrow> ndev msk = 0 \<Longrightarrow>
   find_gid_from reread g val msk k es = find_gid_from reread g (Some v) msk k es"
proof (induction es arbitrary: k)
  case Nil
  show ?case by simp
next
  case (Cons e es)
  from Cons.IH[OF Cons.prems] Cons.prems show ?case by auto
qed

lemma find_gid_from_total:
  "\<exists>r. find_gid_from reread g (Some val) msk k es = Some r"
  by (induction es arbitrary: k) (simp_all only: find_gid_from.simps(1) find_gid_from_step, auto)

lemma find_gid_from_none:
  "find_gid_from reread g (Some val) msk k es = Some (- 1) \<longleftrightarrow>
   (\<forall>j < length es. \<not> slot_qualifies reread g val msk (k + j) (es ! j))"
proof (induction es arbitrary: k)
  case Nil
  show ?case by simp
next
  case (Cons e es)
  show ?case
    unfolding find_gid_from_step
    by (simp add: Cons.IH All_less_Suc2 del: find_gid_from.simps)
qed

lemma find_gid_from_found:
  "find_gid_from reread g (Some val) msk k es = Some r \<Longrightarrow> r \<noteq> - 1 \<Longrightarrow>
   \<exists>j < length es. r = int (k + j) \<and> slot_qualifies reread g val msk (k + j) (es ! j) \<and>
      (\<forall>j' < j. \<not> slot_qualifies reread g val msk (k + j') (es ! j'))"
proof (induction es arbitrary: k)
  case Nil
  then show ?case by simp
next
  case (Cons e es)
  show ?case
  proof (cases "slot_qualifies reread g val msk k e")
    case True
    with Cons.prems have "r = int k" by (simp only: find_gid_from_step if_True option.inject)
    with True show ?thesis by (intro exI[of _ 0]) simp
  next
    case False
    with Cons.prems have "find_gid_from reread g (Some val) msk (Suc k) es = Some r"
      by (simp only: find_gid_from_step if_False)
    from Cons.IH[OF this Cons.prems(2)] obtain j where
      j: "j < length es" "r = int (Suc k + j)"
         "slot_qualifies reread g val msk (Suc k + j) (es ! j)"
         "\<forall>j' < j. \<not> slot_qualifies reread g val msk (Suc k + j') (es ! j')"
      by blast
    show ?thesis
    proof (intro exI[of _ "Suc j"] conjI allI impI)
      fix j' assume "j' < Suc j"
      then show "\<not> slot_qualifies reread g val msk (k + j') ((e # es) ! j')"
        using False j(4) by (cases j') auto
    qed (use j in auto)
  qed
qed

lemma find_gid_characterised:
  "\<exists>r. find_gid reread cache g (Some val) msk = Some r \<and>
     ((r = - 1) = (\<forall>i < length (data_vec cache).
                     \<not> slot_qualifies reread g val msk i (data_vec cache ! i))) \<and>
     (r \<noteq> - 1 \<longrightarrow>
        0 \<le> r \<and> nat r < length (data_vec cache) \<and>
        slot_qualifies reread g val msk (nat r) (data_vec cache ! nat r) \<and>
        (\<forall>j < nat r. \<not> slot_qualifies reread g val msk j (data_vec cache ! j))) \<and>
     (\<forall>i < length (data_vec cache). reread i \<noteq> seq (data_vec cache ! i) \<longrightarrow> r \<noteq> int i)"
proof -
  obtain r where r: "find_gid_from reread g (Some val) msk 0 (data_vec cache) = Some r"
    using find_gid_from_total by blast
  have none: "(r = - 1) = (\<forall>i < length (data_vec cache).
                     \<not> slot_qualifies reread g val msk i (data_vec cache ! i))"
    using find_gid_from_none[of reread g val msk 0 "data_vec cache"] r by simp
  have found: "0 \<le> r \<and> nat r < length (data_vec cache) \<and>
        slot_qualifies reread g val msk (nat r) (data_vec cache ! nat r) \<and>
        (\<forall>j < nat r. \<not> slot_qualifies reread g val msk j (data_vec cache ! j))"
    if "r \<noteq> - 1"
    using find_gid_from_found[OF r that] by auto
  have changed: "r \<noteq> int i" if "i < length (data_vec cache)" "reread i \<noteq> seq (data_vec cache ! i)" for i
  proof
    assume ri: "r = int i"
    then have "r \<noteq> - 1" by simp
    from found[OF this] ri have "slot_qualifies reread g val msk i (data_vec cache ! i)" by simp
    with that(2) show False by (simp add: slot_qualifies_def)
  qed
  from r none found changed show ?thesis
    by (simp add: find_gid_def)
qed

text \<open>
  C5.  \<open>find_gid\<close> with value attributes \<open>val\<close> returns the lowest index whose slot
  qualifies (no sentinel at the first read, kind equal under the mask, identifier equal,
  interface equal under the mask, same sequence number at the second read), and \<open>-1\<close>
  when no slot qualifies.  A slot whose sequence number changed between the two reads is
  never the result; the scan goes on to the slots after it.
\<close>

theorem find_gid_lowest_match:
  "\<exists>r. find_gid reread cache g (Some val) msk = Some r \<and>
     ((r = - 1) = (\<forall>i < length (data_vec cache).
                     \<not> slot_qualifies reread g val msk i (data_vec cache ! i))) \<and>
     (r \<noteq> - 1 \<longrightarrow>
        0 \<le> r \<and> nat r < length (data_vec cache) \<and>
        slot_qualifies reread g val msk (nat r) (data_vec cache ! nat r) \<and>
        (\<forall>j < nat r. \<not> slot_qualifies reread g val msk j (data_vec cache ! j))) \<and>
     (\<forall>i < length (data_vec cache). reread i \<noteq> seq (data_vec cache ! i) \<longrightarrow> r \<noteq> int i)"
  by (rule find_gid_characterised)

theorem find_gid_lowest_match_witness:
  "find_gid reread3 cache3 gidA (Some attrA) roce_gid_type_netdev_msk = Some 2 \<and>
   slot_qualifies reread3 gidA attrA roce_gid_type_netdev_msk 2 (data_vec cache3 ! 2) \<and>
   \<not> slot_qualifies reread3 gidA attrA roce_gid_type_netdev_msk 0 (data_vec cache3 ! 0) \<and>
   \<not> slot_qualifies reread3 gidA attrA roce_gid_type_netdev_msk 1 (data_vec cache3 ! 1) \<and>
   reread3 0 \<noteq> seq (data_vec cache3 ! 0)"
proof -
  have f: "find_gid reread3 cache3 gidA (Some attrA) roce_gid_type_netdev_msk = Some 2"
    by (simp add: find_gid_def cache3_def reread3_def quiescent_def attrA_def
          roce_gid_type_netdev_msk_def)
  from find_gid_lowest_match[of reread3 cache3 gidA attrA roce_gid_type_netdev_msk] f
  have q: "slot_qualifies reread3 gidA attrA roce_gid_type_netdev_msk 2 (data_vec cache3 ! 2)"
    and n: "\<forall>j < 2. \<not> slot_qualifies reread3 gidA attrA roce_gid_type_netdev_msk j (data_vec cache3 ! j)"
    by auto
  from n have "\<not> slot_qualifies reread3 gidA attrA roce_gid_type_netdev_msk 0 (data_vec cache3 ! 0)"
    and "\<not> slot_qualifies reread3 gidA attrA roce_gid_type_netdev_msk 1 (data_vec cache3 ! 1)"
    by simp_all
  moreover have "reread3 0 \<noteq> seq (data_vec cache3 ! 0)"
    by (simp add: reread3_def cache3_def)
  ultimately show ?thesis using f q by simp
qed

section \<open>Add\<close>

lemma emit_fields [simp]:
  "roce_gid_cache (emit es dev) = roce_gid_cache dev"
  "hw (emit es dev) = hw dev"
  "modify_gid (emit es dev) = modify_gid dev"
  "trace (emit es dev) = trace dev @ es"
  by (simp_all add: emit_def)

lemma the_cache_SomeD: "the_cache dev port = Some cache \<Longrightarrow> \<exists>arr. roce_gid_cache dev = Some arr"
  by (simp add: the_cache_def split: option.splits)

lemma find_gid_total: "\<exists>r. find_gid reread cache g (Some val) msk = Some r"
  by (simp add: find_gid_def find_gid_from_total)

lemma find_gid_zattr: "find_gid reread cache g val zattr = find_gid reread cache g (Some zattr) zattr"
  unfolding find_gid_def by (rule find_gid_from_mask0) (simp_all add: zattr_def)

lemma slot_qualifies_quiescent_zattr:
  "i < length (data_vec cache) \<Longrightarrow>
   slot_qualifies (quiescent cache) g v zattr i (data_vec cache ! i) \<longleftrightarrow>
     seq (data_vec cache ! i) \<noteq> - 1 \<and> gid (data_vec cache ! i) = g"
  by (simp add: slot_qualifies_def quiescent_def zattr_def)

lemma find_empty_slot:
  "\<exists>r. find_gid (quiescent cache) cache zgid None zattr = Some r \<and>
     ((r < 0) = (\<forall>i < length (data_vec cache).
          \<not> (seq (data_vec cache ! i) \<noteq> - 1 \<and> gid (data_vec cache ! i) = zgid))) \<and>
     (0 \<le> r \<longrightarrow> r < sz cache \<and>
        seq (data_vec cache ! nat r) \<noteq> - 1 \<and> gid (data_vec cache ! nat r) = zgid \<and>
        (\<forall>j < nat r. \<not> (seq (data_vec cache ! j) \<noteq> - 1 \<and> gid (data_vec cache ! j) = zgid)))"
proof -
  from find_gid_characterised[of "quiescent cache" cache zgid zattr zattr]
  obtain r where r: "find_gid (quiescent cache) cache zgid (Some zattr) zattr = Some r"
    and none: "(r = - 1) = (\<forall>i < length (data_vec cache).
                     \<not> slot_qualifies (quiescent cache) zgid zattr zattr i (data_vec cache ! i))"
    and found: "r \<noteq> - 1 \<longrightarrow>
        0 \<le> r \<and> nat r < length (data_vec cache) \<and>
        slot_qualifies (quiescent cache) zgid zattr zattr (nat r) (data_vec cache ! nat r) \<and>
        (\<forall>j < nat r. \<not> slot_qualifies (quiescent cache) zgid zattr zattr j (data_vec cache ! j))"
    by blast
  have neg: "(r < 0) = (r = - 1)" using found by auto
  have 1: "(r < 0) = (\<forall>i < length (data_vec cache).
          \<not> (seq (data_vec cache ! i) \<noteq> - 1 \<and> gid (data_vec cache ! i) = zgid))"
    unfolding neg none by (simp add: slot_qualifies_quiescent_zattr)
  have 2: "r < sz cache \<and>
        seq (data_vec cache ! nat r) \<noteq> - 1 \<and> gid (data_vec cache ! nat r) = zgid \<and>
        (\<forall>j < nat r. \<not> (seq (data_vec cache ! j) \<noteq> - 1 \<and> gid (data_vec cache ! j) = zgid))"
    if "0 \<le> r"
  proof -
    from that have "r \<noteq> - 1" by simp
    with found have f: "nat r < length (data_vec cache)"
        "slot_qualifies (quiescent cache) zgid zattr zattr (nat r) (data_vec cache ! nat r)"
        "\<forall>j < nat r. \<not> slot_qualifies (quiescent cache) zgid zattr zattr j (data_vec cache ! j)"
      by simp_all
    from f(1) that have "r < sz cache" by (simp add: sz_def)
    moreover from f(1,2) have "seq (data_vec cache ! nat r) \<noteq> - 1 \<and> gid (data_vec cache ! nat r) = zgid"
      by (simp add: slot_qualifies_quiescent_zattr)
    moreover have "\<not> (seq (data_vec cache ! j) \<noteq> - 1 \<and> gid (data_vec cache ! j) = zgid)"
      if "j < nat r" for j
    proof -
      from that f(1) have "j < length (data_vec cache)" by simp
      from f(3)[rule_format, OF that] show ?thesis
        by (simp add: slot_qualifies_quiescent_zattr[OF \<open>j < length (data_vec cache)\<close>])
    qed
    ultimately show ?thesis by blast
  qed
  from r 1 2 show ?thesis by (simp add: find_gid_zattr[where val = None])
qed

lemma roce_add_gid_active:
  assumes "the_cache dev port = Some cache" "active cache"
    and "find_gid (quiescent cache) cache g (Some a) roce_gid_type_msk = Some r1"
    and "find_gid (quiescent cache) cache zgid None zattr = Some r2"
  shows "roce_add_gid dev port g a =
     (if 0 \<le> r1 then Some (0, emit [MutexUnlock port] (emit [MutexLock port] dev))
      else if r2 < 0 then Some (- ENOSPC, emit [MutexUnlock port] (emit [MutexLock port] dev))
      else (case write_gid (emit [MutexLock port] dev) port r2 g a of
              None \<Rightarrow> None
            | Some (r, d2) \<Rightarrow> Some (0, emit [MutexUnlock port] d2)))"
proof -
  from the_cache_SomeD[OF assms(1)] obtain arr where "roce_gid_cache dev = Some arr" ..
  with assms show ?thesis
    by (simp add: roce_add_gid_def Let_def)
qed

lemma put_cache_fields [simp]:
  "hw (put_cache dev port c) = hw dev"
  "modify_gid (put_cache dev port c) = modify_gid dev"
  "trace (put_cache dev port c) = trace dev"
  by (simp_all add: put_cache_def)

lemma write_gid_result:
  assumes "the_cache dev port = Some cache" "0 \<le> ix" "ix < sz cache"
  shows "\<exists>d2. write_gid dev port ix g a =
            Some (fst (modify_gid dev (hw dev) port ix g a (ctx (data_vec cache ! nat ix))), d2) \<and>
          the_cache d2 port = Some (cache\<lparr>data_vec := (data_vec cache)[nat ix :=
             written_entry (data_vec cache ! nat ix)
               (fst (modify_gid dev (hw dev) port ix g a (ctx (data_vec cache ! nat ix))))
               (fst (snd (modify_gid dev (hw dev) port ix g a (ctx (data_vec cache ! nat ix)))))
               g a]\<rparr>) \<and>
          trace d2 = trace dev @ write_effects (kmalloc_ok dev (trace dev)) port ix
              (data_vec cache ! nat ix)
              (fst (modify_gid dev (hw dev) port ix g a (ctx (data_vec cache ! nat ix)))) g a"
  by (simp add: write_gid_Some[OF assms] the_cache_put_cache[OF assms(1)])

lemma roce_add_gid_cases:
  assumes "the_cache dev port = Some cache" "active cache"
  shows "\<exists>r1 r2.
     find_gid (quiescent cache) cache g (Some a) roce_gid_type_msk = Some r1 \<and>
     find_gid (quiescent cache) cache zgid None zattr = Some r2 \<and>
     (0 \<le> r1 \<longrightarrow>
        (\<exists>dev'. roce_add_gid dev port g a = Some (0, dev') \<and>
                roce_gid_cache dev' = roce_gid_cache dev \<and> hw dev' = hw dev)) \<and>
     (r1 < 0 \<and> r2 < 0 \<longrightarrow>
        (\<exists>dev'. roce_add_gid dev port g a = Some (- ENOSPC, dev') \<and>
                roce_gid_cache dev' = roce_gid_cache dev \<and> hw dev' = hw dev)) \<and>
     (r1 < 0 \<and> 0 \<le> r2 \<longrightarrow>
        r2 < sz cache \<and>
        seq (data_vec cache ! nat r2) \<noteq> - 1 \<and> gid (data_vec cache ! nat r2) = zgid \<and>
        (\<forall>j < nat r2. \<not> (seq (data_vec cache ! j) \<noteq> - 1 \<and> gid (data_vec cache ! j) = zgid)) \<and>
        (\<exists>dev'. roce_add_gid dev port g a = Some (0, dev') \<and>
           the_cache dev' port = Some (cache\<lparr>data_vec := (data_vec cache)[nat r2 :=
             written_entry (data_vec cache ! nat r2)
               (fst (modify_gid dev (hw dev) port r2 g a (ctx (data_vec cache ! nat r2))))
               (fst (snd (modify_gid dev (hw dev) port r2 g a (ctx (data_vec cache ! nat r2)))))
               g a]\<rparr>)))"
proof -
  obtain r1 where r1: "find_gid (quiescent cache) cache g (Some a) roce_gid_type_msk = Some r1"
    using find_gid_total by blast
  from find_empty_slot[of cache] obtain r2 where
    r2: "find_gid (quiescent cache) cache zgid None zattr = Some r2"
    and found: "0 \<le> r2 \<longrightarrow> r2 < sz cache \<and>
        seq (data_vec cache ! nat r2) \<noteq> - 1 \<and> gid (data_vec cache ! nat r2) = zgid \<and>
        (\<forall>j < nat r2. \<not> (seq (data_vec cache ! j) \<noteq> - 1 \<and> gid (data_vec cache ! j) = zgid))"
    by blast
  note add = roce_add_gid_active[OF assms r1 r2]
  have c1: "\<exists>dev'. roce_add_gid dev port g a = Some (0, dev') \<and>
                roce_gid_cache dev' = roce_gid_cache dev \<and> hw dev' = hw dev" if "0 \<le> r1"
    using that by (simp add: add)
  have c2: "\<exists>dev'. roce_add_gid dev port g a = Some (- ENOSPC, dev') \<and>
                roce_gid_cache dev' = roce_gid_cache dev \<and> hw dev' = hw dev" if "r1 < 0" "r2 < 0"
    using that by (simp add: add)
  have c3: "\<exists>dev'. roce_add_gid dev port g a = Some (0, dev') \<and>
           the_cache dev' port = Some (cache\<lparr>data_vec := (data_vec cache)[nat r2 :=
             written_entry (data_vec cache ! nat r2)
               (fst (modify_gid dev (hw dev) port r2 g a (ctx (data_vec cache ! nat r2))))
               (fst (snd (modify_gid dev (hw dev) port r2 g a (ctx (data_vec cache ! nat r2)))))
               g a]\<rparr>)" if "r1 < 0" "0 \<le> r2"
  proof -
    from found that have lt: "r2 < sz cache" by simp
    have c: "the_cache (emit [MutexLock port] dev) port = Some cache"
      using assms(1) by simp
    from write_gid_result[OF c that(2) lt, of g a] obtain d2 where
      w: "write_gid (emit [MutexLock port] dev) port r2 g a =
            Some (fst (modify_gid dev (hw dev) port r2 g a (ctx (data_vec cache ! nat r2))), d2)"
      and t: "the_cache d2 port = Some (cache\<lparr>data_vec := (data_vec cache)[nat r2 :=
             written_entry (data_vec cache ! nat r2)
               (fst (modify_gid dev (hw dev) port r2 g a (ctx (data_vec cache ! nat r2))))
               (fst (snd (modify_gid dev (hw dev) port r2 g a (ctx (data_vec cache ! nat r2)))))
               g a]\<rparr>)"
      by auto
    from that have "roce_add_gid dev port g a = Some (0, emit [MutexUnlock port] d2)"
      by (simp add: add w)
    with t show ?thesis by simp
  qed
  from r1 r2 found c1 c2 c3 show ?thesis by blast
qed


lemma the_cache_dev3: "the_cache dev3 (Suc 0) = Some cache3"
  by (simp add: dev3_def dev_of_def the_cache_def port_entry_def)

lemma the_cache_dev2_fail:
  "the_cache dev2_fail (Suc 0) = Some cache2"
  by (simp add: dev2_fail_def dev_of_def the_cache_def port_entry_def)




lemma find_alloc2_A:
  "find_gid (quiescent cache2)
     cache2 gidA (Some attrA) roce_gid_type_msk = Some (- 1)"
  by (simp add: find_gid_def cache2_eq quiescent_def attrA_def
        roce_gid_type_msk_def zentry_def zattr_def gidA_def zgid_def)

lemma find_alloc2_empty:
  "find_gid (quiescent cache2)
     cache2 zgid None zattr = Some 0"
  by (simp add: find_gid_def cache2_eq quiescent_def
        zentry_def zattr_def zgid_def)


text \<open>
  C6.  When \<open>roce_add_gid\<close> reaches \<open>write_gid\<close> (no slot matches, slot \<open>r2\<close> is free) and
  the driver's \<open>modify_gid\<close> fails, the slot is left with the zero gid, the zero
  attributes and a \<open>NULL\<close> context, and \<open>roce_add_gid\<close> still returns 0.
\<close>

theorem roce_add_gid_driver_failure:
  assumes "the_cache dev port = Some cache" "active cache"
    and "find_gid (quiescent cache) cache g (Some a) roce_gid_type_msk = Some r1" "r1 < 0"
    and "find_gid (quiescent cache) cache zgid None zattr = Some r2" "0 \<le> r2"
    and "fst (modify_gid dev (hw dev) port r2 g a (ctx (data_vec cache ! nat r2))) \<noteq> 0"
  shows "\<exists>dev'. roce_add_gid dev port g a = Some (0, dev') \<and>
     slot dev' port r2 =
       Some \<lparr>seq = next_seq (seq (data_vec cache ! nat r2)), gid = zgid, attr = zattr, ctx = 0\<rparr>"
proof -
  from roce_add_gid_cases[OF assms(1,2), of g a] assms(3-6)
  obtain dev' where lt: "r2 < sz cache"
    and add: "roce_add_gid dev port g a = Some (0, dev')"
    and c: "the_cache dev' port = Some (cache\<lparr>data_vec := (data_vec cache)[nat r2 :=
             written_entry (data_vec cache ! nat r2)
               (fst (modify_gid dev (hw dev) port r2 g a (ctx (data_vec cache ! nat r2))))
               (fst (snd (modify_gid dev (hw dev) port r2 g a (ctx (data_vec cache ! nat r2)))))
               g a]\<rparr>)"
    by auto
  from lt assms(6) have "nat r2 < length (data_vec cache)" by (simp add: sz_def)
  with c assms(6,7) lt have "slot dev' port r2 =
       Some \<lparr>seq = next_seq (seq (data_vec cache ! nat r2)), gid = zgid, attr = zattr, ctx = 0\<rparr>"
    by (simp add: slot_def sz_def written_entry_def)
  with add show ?thesis by blast
qed

theorem roce_add_gid_driver_failure_witness:
  "\<exists>dev'. roce_add_gid dev2_fail 1 gidA attrA = Some (0, dev') \<and>
     slot dev' 1 0 = Some \<lparr>seq = 2, gid = zgid, attr = zattr, ctx = 0\<rparr>"
proof -
  have a2: "active cache2" by (simp add: cache2_eq)
  have f: "fst (modify_gid dev2_fail (hw dev2_fail) (Suc 0) 0 gidA attrA
            (ctx (data_vec cache2 ! nat 0))) \<noteq> 0"
    by (simp add: dev2_fail_def dev_of_def modify_fail_def)
  from roce_add_gid_driver_failure[OF the_cache_dev2_fail a2 find_alloc2_A _ find_alloc2_empty _ f]
  have "\<exists>dev'. roce_add_gid dev2_fail (Suc 0) gidA attrA = Some (0, dev') \<and>
     slot dev' (Suc 0) 0 =
       Some \<lparr>seq = next_seq (seq (data_vec cache2 ! nat 0)), gid = zgid, attr = zattr, ctx = 0\<rparr>"
    by simp
  then show ?thesis
    by (simp add: cache2_eq zentry_def next_seq_def)
qed

section \<open>Tables that are not active\<close>

lemma ops_inactive:
  assumes "the_cache dev port = Some cache" "\<not> active cache"
  shows "roce_add_gid dev port g a = Some (- ENOSYS, dev)"
    and "roce_del_gid eui48 dev port g a = Some (- ENOSYS, dev)"
    and "roce_del_all_netdev_gids dev port nd = Some (- ENOSYS, dev)"
    and "roce_gid_cache_get_gid reread dev port index gid_buf attr_buf =
           Some (- ENOSYS, gid_buf, attr_buf)"
proof -
  from the_cache_SomeD[OF assms(1)] obtain arr where arr: "roce_gid_cache dev = Some arr" ..
  from arr assms show "roce_add_gid dev port g a = Some (- ENOSYS, dev)"
    by (simp add: roce_add_gid_def)
  from arr assms show "roce_del_gid eui48 dev port g a = Some (- ENOSYS, dev)"
    by (simp add: roce_del_gid_def)
  from arr assms show "roce_del_all_netdev_gids dev port nd = Some (- ENOSYS, dev)"
    by (simp add: roce_del_all_netdev_gids_def)
  from arr assms show "roce_gid_cache_get_gid reread dev port index gid_buf attr_buf =
           Some (- ENOSYS, gid_buf, attr_buf)"
    by (simp add: roce_gid_cache_get_gid_def)
qed

lemma ops_absent:
  assumes "roce_gid_cache dev = None"
  shows "roce_add_gid dev port g a = Some (- ENOSYS, dev)"
    and "roce_del_gid eui48 dev port g a = Some (0, dev)"
    and "roce_del_all_netdev_gids dev port nd = Some (0, dev)"
    and "roce_gid_cache_get_gid reread dev port index gid_buf attr_buf =
           Some (- EINVAL, gid_buf, attr_buf)"
  using assms
  by (simp_all add: roce_add_gid_def roce_del_gid_def roce_del_all_netdev_gids_def
        roce_gid_cache_get_gid_def)

text \<open>
  C3 (as the code has it).  On a port whose table is allocated but not active, Add,
  Delete, DeleteAllForInterface and Get return \<open>-ENOSYS\<close> and change nothing.  On a device
  without the cache array, Add returns \<open>-ENOSYS\<close>, Get returns \<open>-EINVAL\<close>, and Delete and
  DeleteAllForInterface return 0; nothing is changed either.
\<close>

theorem inactive_or_absent:
  "(the_cache dev port = Some cache \<and> \<not> active cache \<longrightarrow>
      roce_add_gid dev port g a = Some (- ENOSYS, dev) \<and>
      roce_del_gid eui48 dev port g a = Some (- ENOSYS, dev) \<and>
      roce_del_all_netdev_gids dev port nd = Some (- ENOSYS, dev) \<and>
      roce_gid_cache_get_gid reread dev port index gid_buf attr_buf =
        Some (- ENOSYS, gid_buf, attr_buf)) \<and>
   (roce_gid_cache dev = None \<longrightarrow>
      roce_add_gid dev port g a = Some (- ENOSYS, dev) \<and>
      roce_del_gid eui48 dev port g a = Some (0, dev) \<and>
      roce_del_all_netdev_gids dev port nd = Some (0, dev) \<and>
      roce_gid_cache_get_gid reread dev port index gid_buf attr_buf =
        Some (- EINVAL, gid_buf, attr_buf))"
  by (auto simp: ops_inactive ops_absent)

lemma the_cache_dev_inactive:
  "the_cache dev_inactive (Suc 0) = Some (cache2\<lparr>active := False\<rparr>)"
  by (simp add: dev_inactive_def dev_of_def the_cache_def port_entry_def)

theorem inactive_or_absent_witness:
  "roce_add_gid dev_inactive 1 gidA attrA = Some (- ENOSYS, dev_inactive) \<and>
   roce_del_gid eui_zero dev_inactive 1 gidA attrA = Some (- ENOSYS, dev_inactive) \<and>
   roce_del_all_netdev_gids dev_inactive 1 4096 = Some (- ENOSYS, dev_inactive) \<and>
   roce_gid_cache_get_gid 0 dev_inactive 1 0 gidB None = Some (- ENOSYS, gidB, None) \<and>
   roce_add_gid dev_none 1 gidA attrA = Some (- ENOSYS, dev_none) \<and>
   roce_del_gid eui_zero dev_none 1 gidA attrA = Some (0, dev_none) \<and>
   roce_del_all_netdev_gids dev_none 1 4096 = Some (0, dev_none) \<and>
   roce_gid_cache_get_gid 0 dev_none 1 0 gidB None = Some (- EINVAL, gidB, None)"
proof -
  have i: "the_cache dev_inactive (Suc 0) = Some (cache2\<lparr>active := False\<rparr>) \<and>
           \<not> active (cache2\<lparr>active := False\<rparr>)"
    by (simp add: the_cache_dev_inactive)
  have n: "roce_gid_cache dev_none = None"
    by (simp add: dev_none_def dev_of_def)
  from inactive_or_absent[of dev_inactive "Suc 0" "cache2\<lparr>active := False\<rparr>"
        gidA attrA eui_zero 4096 0 0 gidB None] i
  have 1: "roce_add_gid dev_inactive 1 gidA attrA = Some (- ENOSYS, dev_inactive) \<and>
   roce_del_gid eui_zero dev_inactive 1 gidA attrA = Some (- ENOSYS, dev_inactive) \<and>
   roce_del_all_netdev_gids dev_inactive 1 4096 = Some (- ENOSYS, dev_inactive) \<and>
   roce_gid_cache_get_gid 0 dev_inactive 1 0 gidB None = Some (- ENOSYS, gidB, None)"
    by simp
  from inactive_or_absent[of dev_none "Suc 0" cache2 gidA attrA eui_zero 4096 0 0 gidB None] n
  have 2: "roce_add_gid dev_none 1 gidA attrA = Some (- ENOSYS, dev_none) \<and>
   roce_del_gid eui_zero dev_none 1 gidA attrA = Some (0, dev_none) \<and>
   roce_del_all_netdev_gids dev_none 1 4096 = Some (0, dev_none) \<and>
   roce_gid_cache_get_gid 0 dev_none 1 0 gidB None = Some (- EINVAL, gidB, None)"
    by simp
  from 1 2 show ?thesis by blast
qed

text \<open>
  Delete on a device without the cache array returns 0, not \<open>-ENOSYS\<close>.
\<close>

theorem inactive_or_absent_counterexample:
  "roce_gid_cache dev_none = None \<and>
   roce_del_gid eui_zero dev_none 1 gidA attrA = Some (0, dev_none) \<and>
   roce_del_gid eui_zero dev_none 1 gidA attrA \<noteq> Some (- ENOSYS, dev_none)"
  by (simp add: roce_del_gid_def dev_none_def dev_of_def ENOSYS_def)

section \<open>Delete\<close>

lemma roce_del_gid_active:
  assumes "the_cache dev port = Some cache" "active cache"
  shows "roce_del_gid eui48 dev port g a =
     (if ndev a \<noteq> 0 \<and> g = make_default_gid eui48 (ndev a) then Some (- EPERM, dev)
      else (case find_gid (quiescent cache) cache g (Some a) roce_gid_type_netdev_msk of
              None \<Rightarrow> None
            | Some ix \<Rightarrow>
                if ix < 0 then Some (0, emit [MutexUnlock port] (emit [MutexLock port] dev))
                else (case write_gid (emit [MutexLock port] dev) port ix zgid zattr of
                        None \<Rightarrow> None
                      | Some (r, d2) \<Rightarrow> Some (0, emit [MutexUnlock port] d2))))"
proof -
  from the_cache_SomeD[OF assms(1)] obtain arr where "roce_gid_cache dev = Some arr" ..
  with assms show ?thesis
    by (simp add: roce_del_gid_def Let_def)
qed

lemma find_gid_no_match:
  assumes "\<forall>i < length (data_vec cache). \<not> slot_qualifies reread g val msk i (data_vec cache ! i)"
  shows "find_gid reread cache g (Some val) msk = Some (- 1)"
  using find_gid_characterised[of reread cache g val msk] assms by auto

text \<open>
  C7.  \<open>roce_del_gid\<close> on an active table (the test of the \<open>active\<close> flag comes first).  If
  the attributes name a net device and the gid is the default gid made for that device, the
  call returns \<open>-EPERM\<close> and changes nothing.  Otherwise, if no slot matches the request
  (in particular when no slot holds the gid), the call returns 0 and leaves tables and
  driver state as they were.
\<close>

theorem roce_del_gid_spec:
  assumes "the_cache dev port = Some cache" "active cache"
  shows "(ndev a \<noteq> 0 \<and> g = make_default_gid eui48 (ndev a) \<longrightarrow>
            roce_del_gid eui48 dev port g a = Some (- EPERM, dev)) \<and>
         (\<not> (ndev a \<noteq> 0 \<and> g = make_default_gid eui48 (ndev a)) \<and>
          (\<forall>i < length (data_vec cache).
              \<not> slot_qualifies (quiescent cache) g a roce_gid_type_netdev_msk i (data_vec cache ! i)) \<longrightarrow>
            (\<exists>dev'. roce_del_gid eui48 dev port g a = Some (0, dev') \<and>
                    roce_gid_cache dev' = roce_gid_cache dev \<and> hw dev' = hw dev)) \<and>
         ((\<forall>e \<in> set (data_vec cache). gid e \<noteq> g) \<longrightarrow>
            (\<forall>i < length (data_vec cache).
              \<not> slot_qualifies (quiescent cache) g a roce_gid_type_netdev_msk i (data_vec cache ! i)))"
proof (intro conjI impI)
  assume "ndev a \<noteq> 0 \<and> g = make_default_gid eui48 (ndev a)"
  then show "roce_del_gid eui48 dev port g a = Some (- EPERM, dev)"
    by (simp add: roce_del_gid_active[OF assms])
next
  assume h: "\<not> (ndev a \<noteq> 0 \<and> g = make_default_gid eui48 (ndev a)) \<and>
          (\<forall>i < length (data_vec cache).
              \<not> slot_qualifies (quiescent cache) g a roce_gid_type_netdev_msk i (data_vec cache ! i))"
  then have "find_gid (quiescent cache) cache g (Some a) roce_gid_type_netdev_msk = Some (- 1)"
    by (simp add: find_gid_no_match)
  with h show "\<exists>dev'. roce_del_gid eui48 dev port g a = Some (0, dev') \<and>
                    roce_gid_cache dev' = roce_gid_cache dev \<and> hw dev' = hw dev"
    by (auto simp: roce_del_gid_active[OF assms])
next
  assume "\<forall>e \<in> set (data_vec cache). gid e \<noteq> g"
  then show "\<forall>i < length (data_vec cache).
              \<not> slot_qualifies (quiescent cache) g a roce_gid_type_netdev_msk i (data_vec cache ! i)"
    by (simp add: slot_qualifies_def)
qed

theorem roce_del_gid_spec_witness:
  "roce_del_gid eui_zero dev3 1 (make_default_gid eui_zero 4096) attrA = Some (- EPERM, dev3) \<and>
   (\<exists>dev'. roce_del_gid eui_zero dev3 1 gidB attrA = Some (0, dev') \<and>
           roce_gid_cache dev' = roce_gid_cache dev3)"
proof -
  have a3: "active cache3" by (simp add: cache3_def)
  have nd: "ndev attrA = 4096" by (simp add: attrA_def)
  have ne: "gidB \<noteq> make_default_gid eui_zero 4096"
    by (simp add: gidB_def make_default_gid_def eui_zero_def)
  have nostore: "\<forall>e \<in> set (data_vec cache3). gid e \<noteq> gidB"
    by (simp add: cache3_def gidA_def gidB_def)
  from roce_del_gid_spec[OF the_cache_dev3 a3, of attrA "make_default_gid eui_zero 4096" eui_zero] nd
  have 1: "roce_del_gid eui_zero dev3 1 (make_default_gid eui_zero 4096) attrA = Some (- EPERM, dev3)"
    by simp
  from roce_del_gid_spec[OF the_cache_dev3 a3, of attrA gidB eui_zero] nd ne nostore
  have 2: "\<exists>dev'. roce_del_gid eui_zero dev3 1 gidB attrA = Some (0, dev') \<and>
           roce_gid_cache dev' = roce_gid_cache dev3"
    by auto
  from 1 2 show ?thesis by blast
qed

section \<open>Get\<close>

lemma get_gid_active:
  assumes "the_cache dev port = Some cache" "active cache"
  shows "roce_gid_cache_get_gid reread dev port index gid_buf attr_buf =
     (if index < 0 \<or> sz cache \<le> index then Some (- EINVAL, gid_buf, attr_buf)
      else if seq (data_vec cache ! nat index) = - 1 \<or> seq (data_vec cache ! nat index) \<noteq> reread
        then Some (- EAGAIN, gid_buf, attr_buf)
      else Some (0, gid (data_vec cache ! nat index),
                 map_option (\<lambda>_. attr (data_vec cache ! nat index)) attr_buf))"
proof -
  from the_cache_SomeD[OF assms(1)] obtain arr where "roce_gid_cache dev = Some arr" ..
  with assms show ?thesis
    by (simp add: roce_gid_cache_get_gid_def Let_def)
qed

lemma get_gid_failure:
  assumes "roce_gid_cache_get_gid reread dev port index gid_buf attr_buf = Some (ret, g', a')"
    and "ret \<noteq> 0"
  shows "g' = gid_buf \<and> a' = attr_buf"
proof (cases "roce_gid_cache dev")
  case None
  with assms show ?thesis by (simp add: roce_gid_cache_get_gid_def)
next
  case (Some arr)
  show ?thesis
  proof (cases "the_cache dev port")
    case None
    with Some assms show ?thesis by (simp add: roce_gid_cache_get_gid_def)
  next
    case c: (Some cache)
    show ?thesis
    proof (cases "active cache")
      case True
      from assms show ?thesis
        unfolding get_gid_active[OF c True]
        by (auto split: if_splits)
    next
      case False
      with Some c assms show ?thesis by (simp add: roce_gid_cache_get_gid_def)
    qed
  qed
qed

text \<open>
  C10.  Whenever \<open>roce_gid_cache_get_gid\<close> returns an error the caller's buffers hold what
  they held before.  On an active table it returns \<open>-EINVAL\<close> for an index outside the
  table and \<open>-EAGAIN\<close> when the first read of the sequence number returned the sentinel or
  the second read returned another value; only otherwise does it return 0 and copy the
  slot to the buffers.
\<close>

theorem get_gid_failure_leaves_buffers:
  "(\<forall>ret g' a'. roce_gid_cache_get_gid reread dev port index gid_buf attr_buf = Some (ret, g', a') \<and>
        ret \<noteq> 0 \<longrightarrow> g' = gid_buf \<and> a' = attr_buf) \<and>
   (the_cache dev port = Some cache \<and> active cache \<longrightarrow>
      (index < 0 \<or> sz cache \<le> index \<longrightarrow>
         roce_gid_cache_get_gid reread dev port index gid_buf attr_buf =
           Some (- EINVAL, gid_buf, attr_buf)) \<and>
      (0 \<le> index \<and> index < sz cache \<and>
       (seq (data_vec cache ! nat index) = - 1 \<or> seq (data_vec cache ! nat index) \<noteq> reread) \<longrightarrow>
         roce_gid_cache_get_gid reread dev port index gid_buf attr_buf =
           Some (- EAGAIN, gid_buf, attr_buf)) \<and>
      (0 \<le> index \<and> index < sz cache \<and>
       seq (data_vec cache ! nat index) \<noteq> - 1 \<and> seq (data_vec cache ! nat index) = reread \<longrightarrow>
         roce_gid_cache_get_gid reread dev port index gid_buf attr_buf =
           Some (0, gid (data_vec cache ! nat index),
                 map_option (\<lambda>_. attr (data_vec cache ! nat index)) attr_buf)))"
proof (intro conjI allI impI)
  fix ret g' a'
  assume "roce_gid_cache_get_gid reread dev port index gid_buf attr_buf = Some (ret, g', a') \<and> ret \<noteq> 0"
  then show "g' = gid_buf" "a' = attr_buf"
    using get_gid_failure by blast+
next
  assume "the_cache dev port = Some cache \<and> active cache" "index < 0 \<or> sz cache \<le> index"
  then show "roce_gid_cache_get_gid reread dev port index gid_buf attr_buf =
           Some (- EINVAL, gid_buf, attr_buf)"
    by (simp add: get_gid_active)
next
  assume "the_cache dev port = Some cache \<and> active cache"
    "0 \<le> index \<and> index < sz cache \<and>
       (seq (data_vec cache ! nat index) = - 1 \<or> seq (data_vec cache ! nat index) \<noteq> reread)"
  then show "roce_gid_cache_get_gid reread dev port index gid_buf attr_buf =
           Some (- EAGAIN, gid_buf, attr_buf)"
    by (auto simp: get_gid_active)
next
  assume "the_cache dev port = Some cache \<and> active cache"
    "0 \<le> index \<and> index < sz cache \<and>
       seq (data_vec cache ! nat index) \<noteq> - 1 \<and> seq (data_vec cache ! nat index) = reread"
  then show "roce_gid_cache_get_gid reread dev port index gid_buf attr_buf =
           Some (0, gid (data_vec cache ! nat index),
                 map_option (\<lambda>_. attr (data_vec cache ! nat index)) attr_buf)"
    by (auto simp: get_gid_active)
qed

lemma sz_cache3 [simp]: "sz cache3 = 3"
  by (simp add: sz_def cache3_def)

theorem get_gid_failure_leaves_buffers_witness:
  "roce_gid_cache_get_gid 4 dev3 1 7 gidB (Some zattr) = Some (- EINVAL, gidB, Some zattr) \<and>
   roce_gid_cache_get_gid (- 1) dev3 1 1 gidB (Some zattr) = Some (- EAGAIN, gidB, Some zattr) \<and>
   roce_gid_cache_get_gid 6 dev3 1 0 gidB (Some zattr) = Some (- EAGAIN, gidB, Some zattr) \<and>
   roce_gid_cache_get_gid 4 dev3 1 0 gidB (Some zattr) = Some (0, gidA, Some attrA)"
proof -
  have c: "the_cache dev3 (Suc 0) = Some cache3 \<and> active cache3"
    by (simp add: the_cache_dev3 cache3_def)
  from get_gid_failure_leaves_buffers[of 4 dev3 "Suc 0" 7 gidB "Some zattr" cache3] c
  have 1: "roce_gid_cache_get_gid 4 dev3 1 7 gidB (Some zattr) = Some (- EINVAL, gidB, Some zattr)"
    by simp
  from get_gid_failure_leaves_buffers[of "- 1" dev3 "Suc 0" 1 gidB "Some zattr" cache3] c
  have 2: "roce_gid_cache_get_gid (- 1) dev3 1 1 gidB (Some zattr) = Some (- EAGAIN, gidB, Some zattr)"
    by (simp add: cache3_def sz_def)
  from get_gid_failure_leaves_buffers[of 6 dev3 "Suc 0" 0 gidB "Some zattr" cache3] c
  have 3: "roce_gid_cache_get_gid 6 dev3 1 0 gidB (Some zattr) = Some (- EAGAIN, gidB, Some zattr)"
    by (simp add: cache3_def sz_def)
  from get_gid_failure_leaves_buffers[of 4 dev3 "Suc 0" 0 gidB "Some zattr" cache3] c
  have 4: "roce_gid_cache_get_gid 4 dev3 1 0 gidB (Some zattr) = Some (0, gidA, Some attrA)"
    by (simp add: cache3_def sz_def)
  from 1 2 3 4 show ?thesis by blast
qed

section \<open>Net device notifications\<close>

text \<open>
  C9.  When the work item can be allocated, \<open>netdevice_event\<close> queues: for
  \<open>NETDEV_REGISTER\<close> and \<open>NETDEV_UP\<close> an item with the add command alone; for
  \<open>NETDEV_UNREGISTER\<close> of a device not yet in state \<open>NETREG_UNREGISTERED\<close> an item with
  the delete command alone; for \<open>NETDEV_CHANGEADDR\<close> an item with the delete command
  followed by the add command, which the worker runs in that order, each under the rtnl
  lock.  Every other notification queues nothing.
\<close>

theorem netdevice_event_resolution:
  "netdevice_event True NETDEV_REGISTER nd rs = Some \<lparr>cmds = [add_cmd, zero_cmd], work_ndev = nd\<rparr> \<and>
   netdevice_event True NETDEV_UP nd rs = Some \<lparr>cmds = [add_cmd, zero_cmd], work_ndev = nd\<rparr> \<and>
   netdevice_event_work_handler \<lparr>cmds = [add_cmd, zero_cmd], work_ndev = nd\<rparr> =
     [RtnlLock, EnumRocePorts nd (Some is_eth_port_of_netdev) add_netdev_ips, RtnlUnlock,
      WorkDevPut nd] \<and>
   (netreg_val rs < netreg_val NETREG_UNREGISTERED \<longrightarrow>
      netdevice_event True NETDEV_UNREGISTER nd rs =
        Some \<lparr>cmds = [del_cmd, zero_cmd], work_ndev = nd\<rparr>) \<and>
   (\<not> netreg_val rs < netreg_val NETREG_UNREGISTERED \<longrightarrow>
      netdevice_event alloc_ok NETDEV_UNREGISTER nd rs = None) \<and>
   netdevice_event_work_handler \<lparr>cmds = [del_cmd, zero_cmd], work_ndev = nd\<rparr> =
     [RtnlLock, EnumRocePorts nd (Some pass_all_filter) del_netdev_ips, RtnlUnlock,
      WorkDevPut nd] \<and>
   netdevice_event True NETDEV_CHANGEADDR nd rs = Some \<lparr>cmds = [del_cmd, add_cmd], work_ndev = nd\<rparr> \<and>
   netdevice_event_work_handler \<lparr>cmds = [del_cmd, add_cmd], work_ndev = nd\<rparr> =
     [RtnlLock, EnumRocePorts nd (Some pass_all_filter) del_netdev_ips, RtnlUnlock,
      RtnlLock, EnumRocePorts nd (Some is_eth_port_of_netdev) add_netdev_ips, RtnlUnlock,
      WorkDevPut nd] \<and>
   (event \<notin> {NETDEV_REGISTER, NETDEV_UP, NETDEV_UNREGISTER, NETDEV_CHANGEADDR} \<longrightarrow>
      netdevice_event alloc_ok event nd rs = None)"
proof -
  have other: "netdevice_event alloc_ok event nd rs = None"
    if "event \<notin> {NETDEV_REGISTER, NETDEV_UP, NETDEV_UNREGISTER, NETDEV_CHANGEADDR}"
    using that by (cases event) (simp_all add: netdevice_event_def)
  show ?thesis
    using other
    by (simp add: netdevice_event_def netdevice_event_work_handler_def
          ROCE_NETDEV_CALLBACK_SZ_def add_cmd_def del_cmd_def zero_cmd_def)
qed

theorem netdevice_event_resolution_witness:
  "netdevice_event True NETDEV_UNREGISTER 4096 NETREG_UNREGISTERING =
     Some \<lparr>cmds = [del_cmd, zero_cmd], work_ndev = 4096\<rparr> \<and>
   netdevice_event True NETDEV_UNREGISTER 4096 NETREG_RELEASED = None \<and>
   netdevice_event True NETDEV_DOWN 4096 NETREG_REGISTERED = None \<and>
   netdevice_event True NETDEV_CHANGEADDR 4096 NETREG_REGISTERED =
     Some \<lparr>cmds = [del_cmd, add_cmd], work_ndev = 4096\<rparr> \<and>
   netdevice_event_work_handler \<lparr>cmds = [del_cmd, add_cmd], work_ndev = 4096\<rparr> =
     [RtnlLock, EnumRocePorts 4096 (Some pass_all_filter) del_netdev_ips, RtnlUnlock,
      RtnlLock, EnumRocePorts 4096 (Some is_eth_port_of_netdev) add_netdev_ips, RtnlUnlock,
      WorkDevPut 4096]"
proof -
  from netdevice_event_resolution[of 4096 NETREG_UNREGISTERING True NETDEV_DOWN]
  have 1: "netdevice_event True NETDEV_UNREGISTER 4096 NETREG_UNREGISTERING =
     Some \<lparr>cmds = [del_cmd, zero_cmd], work_ndev = 4096\<rparr>"
    by simp
  from netdevice_event_resolution[of 4096 NETREG_RELEASED True NETDEV_DOWN]
  have 2: "netdevice_event True NETDEV_UNREGISTER 4096 NETREG_RELEASED = None"
    by simp
  from netdevice_event_resolution[of 4096 NETREG_REGISTERED True NETDEV_DOWN]
  have 3: "netdevice_event True NETDEV_DOWN 4096 NETREG_REGISTERED = None"
    and 4: "netdevice_event True NETDEV_CHANGEADDR 4096 NETREG_REGISTERED =
     Some \<lparr>cmds = [del_cmd, add_cmd], work_ndev = 4096\<rparr>"
    and 5: "netdevice_event_work_handler \<lparr>cmds = [del_cmd, add_cmd], work_ndev = 4096\<rparr> =
     [RtnlLock, EnumRocePorts 4096 (Some pass_all_filter) del_netdev_ips, RtnlUnlock,
      RtnlLock, EnumRocePorts 4096 (Some is_eth_port_of_netdev) add_netdev_ips, RtnlUnlock,
      WorkDevPut 4096]"
    by simp_all
  from 1 2 3 4 5 show ?thesis by blast
qed

section \<open>SetDefault\<close>

lemma mask_test:
  assumes "i < 64"
  shows "(push_bit i (1 :: 64 word) AND NOT m \<noteq> 0) \<longleftrightarrow> \<not> bit m i"
proof -
  have b: "bit (push_bit i (1 :: 64 word) AND NOT m) n \<longleftrightarrow> n = i \<and> \<not> bit m i" for n
    using assms by (auto simp: bit_simps)
  show ?thesis
  proof
    assume "push_bit i 1 AND NOT m \<noteq> 0"
    then obtain n where "bit (push_bit i (1 :: 64 word) AND NOT m) n"
      by (auto simp: bit_eq_iff)
    with b show "\<not> bit m i" by simp
  next
    assume "\<not> bit m i"
    with b have "bit (push_bit i (1 :: 64 word) AND NOT m) i" by simp
    then show "push_bit i 1 AND NOT m \<noteq> 0" by auto
  qed
qed

lemma loop_done:
  assumes "\<not> i < n"
  shows "set_default_loop n dev port nd g m i success = Some dev"
  by (subst set_default_loop.simps) (simp only: assms if_False)

lemma loop_skip:
  assumes "i < n" "push_bit i (1 :: 64 word) AND NOT m \<noteq> 0"
  shows "set_default_loop n dev port nd g m i success =
         set_default_loop n dev port nd g m (i + 1) success"
  by (subst set_default_loop.simps) (simp only: assms if_True simp_thms)

lemma loop_write:
  assumes "i < n" "push_bit i (1 :: 64 word) AND NOT m = 0"
  shows "set_default_loop n dev port nd g m i success =
     (case write_gid dev port (int success) zgid zattr of
        None \<Rightarrow> None
      | Some (r1, d1) \<Rightarrow>
          if r1 \<noteq> 0
          then set_default_loop n (emit [PrWarn] d1) port nd g m (i + 1) success
          else
            (case write_gid d1 port (int success) g \<lparr>gid_type = of_nat i, ndev = nd\<rparr> of
               None \<Rightarrow> None
             | Some (r2, d2) \<Rightarrow>
                 if r2 \<noteq> 0
                 then set_default_loop n (emit [PrWarn] d2) port nd g m (i + 1) success
                 else set_default_loop n d2 port nd g m (i + 1) (success + 1)))"
  by (subst set_default_loop.simps) (simp only: assms if_True if_False simp_thms)

lemma set_default_loop_kinds:
  "n \<le> 64 \<Longrightarrow> i \<le> n \<Longrightarrow>
   set_default_loop n dev port nd g m i success =
   set_default_kinds dev port nd g (filter (\<lambda>k. bit m k) [i ..< n]) success"
proof (induction n dev port nd g m i success rule: set_default_loop.induct)
  case (1 n dev port nd g m i success)
  show ?case
  proof (cases "i < n")
    case False
    with 1(6) have "[i ..< n] = []" by simp
    with False show ?thesis by (simp add: loop_done)
  next
    case True
    then have up: "[i ..< n] = i # [Suc i ..< n]" by (simp add: upt_conv_Cons)
    from True 1(5) have i64: "i < 64" by simp
    from True have le: "i + 1 \<le> n" by simp
    show ?thesis
    proof (cases "bit m i")
      case False
      then have sk: "push_bit i (1 :: 64 word) AND NOT m \<noteq> 0"
        using i64 by (simp only: mask_test not_False_eq_True)
      from 1(1)[OF True sk 1(5) le] False show ?thesis
        by (simp add: loop_skip[OF True sk] up)
    next
      case bit: True
      then have nm: "\<not> (push_bit i (1 :: 64 word) AND NOT m \<noteq> 0)"
        using i64 by (simp only: mask_test not_True_eq_False not_False_eq_True)
      then have nm0: "push_bit i (1 :: 64 word) AND NOT m = 0"
        by blast
      note lw = loop_write[OF True nm0]
      show ?thesis
      proof (cases "write_gid dev port (int success) zgid zattr")
        case None
        with bit show ?thesis by (simp add: lw up)
      next
        case (Some p1)
        obtain r1 d1 where p1: "p1 = (r1, d1)" by (cases p1)
        note w1 = Some[unfolded p1]
        show ?thesis
        proof (cases "r1 \<noteq> 0")
          case True
          from 1(2)[OF \<open>i < n\<close> nm w1 refl True 1(5) le] True bit w1
          show ?thesis by (simp add: lw up)
        next
          case r1: False
          show ?thesis
          proof (cases "write_gid d1 port (int success) g \<lparr>gid_type = of_nat i, ndev = nd\<rparr>")
            case None
            with bit w1 r1 show ?thesis by (simp add: lw up)
          next
            case (Some p2)
            obtain r2 d2 where p2: "p2 = (r2, d2)" by (cases p2)
            note w2 = Some[unfolded p2]
            show ?thesis
            proof (cases "r2 \<noteq> 0")
              case True
              from 1(3)[OF \<open>i < n\<close> nm w1 refl r1 w2 refl True 1(5) le] True bit w1 w2 r1
              show ?thesis by (simp add: lw up)
            next
              case False
              from 1(4)[OF \<open>i < n\<close> nm w1 refl r1 w2 refl False 1(5) le] False bit w1 w2 r1
              show ?thesis by (simp add: lw up)
            qed
          qed
        qed
      qed
    qed
  qed
qed


lemma kinds_in_mask_sorted:
  "sorted_wrt (<) (kinds_in_mask n m) \<and> set (kinds_in_mask n m) = {k. k < n \<and> bit m k}"
  by (auto simp: kinds_in_mask_def sorted_wrt_filter)

lemma set_default_gid_kinds:
  assumes "gid_type_size \<le> 64" "the_cache dev port = Some cache"
  shows "roce_gid_cache_set_default_gid eui48 gid_type_size dev port nd gid_type_mask =
     set_default_kinds dev port nd (make_default_gid eui48 nd)
       (kinds_in_mask gid_type_size gid_type_mask) 0"
proof -
  from assms(2) obtain arr where "roce_gid_cache dev = Some arr"
      "port_entry arr port = Some (Some cache)"
    by (auto simp: the_cache_def split: option.splits)
  then show ?thesis
    by (simp add: roce_gid_cache_set_default_gid_def kinds_in_mask_def
          set_default_loop_kinds[OF assms(1)])
qed

lemma kinds_2_3: "kinds_in_mask 2 3 = [0, 1]"
  by (simp add: kinds_in_mask_def upt_conv_Cons numeral_2_eq_2)

lemma kinds_2_1: "kinds_in_mask 2 1 = [0]"
  by (simp add: kinds_in_mask_def upt_conv_Cons numeral_2_eq_2)

lemma the_cache_dev2_rej0: "the_cache dev2_rej0 (Suc 0) = Some cache2"
  by (simp add: dev2_rej0_def dev_of_def the_cache_def port_entry_def)

lemma default_gid_4096: "make_default_gid eui_zero 4096 = 0xfe800000000000000000000000000000"
  by (simp add: make_default_gid_def eui_zero_def)

lemmas eval_write = write_gid_def the_cache_def put_cache_def emit_def port_entry_def sz_def
  Let_def written_entry_def write_effects_def next_seq_def dev_of_def cache2_eq zentry_def
  zattr_def zgid_def default_gid_4096

lemma set_default_fail_trace:
  "map_option trace (roce_gid_cache_set_default_gid eui_zero 2 dev2_fail 1 4096 1) =
     Some [ModifyGid 1 0 zgid zattr (- 5), PrWarn]"
proof -
  have le: "(2::nat) \<le> 64" by simp
  show ?thesis
    by (simp add: set_default_gid_kinds[OF le the_cache_dev2_fail] kinds_2_1)
       (simp add: eval_write dev2_fail_def modify_fail_def)
qed

lemma set_default_rej0_trace:
  "map_option trace (roce_gid_cache_set_default_gid eui_zero 2 dev2_rej0 1 4096 3) =
     Some [ModifyGid 1 0 zgid zattr 0, GidChangeEvent 1,
           ModifyGid 1 0 (make_default_gid eui_zero 4096) \<lparr>gid_type = 0, ndev = 4096\<rparr> (- 5),
           PrWarn,
           ModifyGid 1 0 zgid zattr 0, GidChangeEvent 1,
           ModifyGid 1 0 (make_default_gid eui_zero 4096) \<lparr>gid_type = 1, ndev = 4096\<rparr> 0,
           DevHold 4096, GidChangeEvent 1]"
proof -
  have le: "(2::nat) \<le> 64" by simp
  show ?thesis
    by (simp add: set_default_gid_kinds[OF le the_cache_dev2_rej0] kinds_2_3)
       (simp add: eval_write dev2_rej0_def modify_rej0_def)
qed


text \<open>
  C8 (as the code has it).  With at most 64 kinds, SetDefault on a port that has a table
  processes the kinds whose bit is set in the mask, in ascending order.  For each kind it
  writes the empty entry into the slot numbered by the success counter and, when that
  write succeeded, writes the default identifier of the interface with this kind into the
  same slot; the counter advances when both writes succeeded; after a failure of either
  write it goes on with the next kind.
\<close>

theorem set_default_gid_spec:
  assumes "gid_type_size \<le> 64" "the_cache dev port = Some cache"
  shows "roce_gid_cache_set_default_gid eui48 gid_type_size dev port nd gid_type_mask =
           set_default_kinds dev port nd (make_default_gid eui48 nd)
             (kinds_in_mask gid_type_size gid_type_mask) 0 \<and>
         sorted_wrt (<) (kinds_in_mask gid_type_size gid_type_mask) \<and>
         set (kinds_in_mask gid_type_size gid_type_mask) =
           {k. k < gid_type_size \<and> bit gid_type_mask k}"
  using set_default_gid_kinds[OF assms] kinds_in_mask_sorted by blast

theorem set_default_gid_spec_witness:
  "roce_gid_cache_set_default_gid eui_zero 2 dev2_rej0 1 4096 3 =
     set_default_kinds dev2_rej0 1 4096 (make_default_gid eui_zero 4096) [0, 1] 0 \<and>
   map_option trace (set_default_kinds dev2_rej0 1 4096 (make_default_gid eui_zero 4096) [0, 1] 0) =
     Some [ModifyGid 1 0 zgid zattr 0, GidChangeEvent 1,
           ModifyGid 1 0 (make_default_gid eui_zero 4096) \<lparr>gid_type = 0, ndev = 4096\<rparr> (- 5),
           PrWarn,
           ModifyGid 1 0 zgid zattr 0, GidChangeEvent 1,
           ModifyGid 1 0 (make_default_gid eui_zero 4096) \<lparr>gid_type = 1, ndev = 4096\<rparr> 0,
           DevHold 4096, GidChangeEvent 1]"
proof -
  have le: "(2::nat) \<le> 64" by simp
  from set_default_gid_spec[OF le the_cache_dev2_rej0, of eui_zero 4096 3]
  have 1: "roce_gid_cache_set_default_gid eui_zero 2 dev2_rej0 1 4096 3 =
     set_default_kinds dev2_rej0 1 4096 (make_default_gid eui_zero 4096) [0, 1] 0"
    by (simp add: kinds_2_3)
  from set_default_rej0_trace show ?thesis
    unfolding 1 by simp
qed

text \<open>
  With a driver that rejects everything, the kind in the mask gets its empty entry
  written, and no write of the default identifier follows.
\<close>

theorem set_default_gid_counterexample:
  "bit (1 :: 64 word) 0 \<and>
   map_option trace (roce_gid_cache_set_default_gid eui_zero 2 dev2_fail 1 4096 1) =
     Some [ModifyGid 1 0 zgid zattr (- 5), PrWarn]"
  using set_default_fail_trace by simp

section \<open>Locking\<close>

lemma write_effects_locked:
  "writes_locked (port # held) (write_effects ok port ix e ret g a @ rest) =
   writes_locked (port # held) rest"
  by (simp add: write_effects_def Let_def)

lemma write_gid_trace:
  assumes "write_gid dev port ix g a = Some (ret, dev')"
  shows "\<exists>ws. trace dev' = trace dev @ ws \<and>
           (\<forall>held rest. writes_locked (port # held) (ws @ rest) = writes_locked (port # held) rest)"
proof -
  from write_gid_SomeD[OF assms] obtain cache where
    c: "the_cache dev port = Some cache" "0 \<le> ix" "ix < sz cache"
    by blast
  from write_gid_result[OF c, of g a] assms
  have "trace dev' = trace dev @ write_effects (kmalloc_ok dev (trace dev)) port ix
              (data_vec cache ! nat ix)
              (fst (modify_gid dev (hw dev) port ix g a (ctx (data_vec cache ! nat ix)))) g a"
    by auto
  then show ?thesis
    by (auto simp: write_effects_locked)
qed

lemma locked_section:
  assumes "trace d2 = trace (emit [MutexLock port] dev) @ ws"
    and "\<forall>held rest. writes_locked (port # held) (ws @ rest) = writes_locked (port # held) rest"
  shows "\<exists>ws'. trace (emit [MutexUnlock port] d2) = trace dev @ ws' \<and> writes_locked [] ws'"
proof (intro exI conjI)
  show "trace (emit [MutexUnlock port] d2) = trace dev @ ([MutexLock port] @ ws @ [MutexUnlock port])"
    using assms(1) by simp
  show "writes_locked [] ([MutexLock port] @ ws @ [MutexUnlock port])"
    using assms(2) by simp
qed

lemma locked_write:
  assumes "write_gid (emit [MutexLock port] dev) port ix g a = Some (ret, d2)"
  shows "\<exists>ws'. trace (emit [MutexUnlock port] d2) = trace dev @ ws' \<and> writes_locked [] ws'"
proof -
  from write_gid_trace[OF assms] obtain ws where
    "trace d2 = trace (emit [MutexLock port] dev) @ ws"
    "\<forall>held rest. writes_locked (port # held) (ws @ rest) = writes_locked (port # held) rest"
    by blast
  then show ?thesis by (rule locked_section)
qed

lemma locked_nothing:
  "\<exists>ws'. trace (emit [MutexUnlock port] (emit [MutexLock port] dev)) = trace dev @ ws' \<and>
      writes_locked [] ws'"
  by (rule exI[of _ "[MutexLock port, MutexUnlock port]"]) simp

lemma unchanged_trace: "\<exists>ws'. trace dev = trace dev @ ws' \<and> writes_locked [] ws'"
  by (rule exI[of _ "[]"]) simp

lemma roce_add_gid_locked:
  assumes "roce_add_gid dev port g a = Some (r, dev')"
  shows "\<exists>ws. trace dev' = trace dev @ ws \<and> writes_locked [] ws"
proof (cases "the_cache dev port")
  case None
  with assms have "dev' = dev"
    by (auto simp: roce_add_gid_def split: option.splits)
  then show ?thesis by (simp add: unchanged_trace)
next
  case (Some cache)
  show ?thesis
  proof (cases "active cache")
    case False
    from ops_inactive(1)[OF Some False] assms have "dev' = dev" by simp
    then show ?thesis by (simp add: unchanged_trace)
  next
    case True
    obtain r1 where r1: "find_gid (quiescent cache) cache g (Some a) roce_gid_type_msk = Some r1"
      using find_gid_total by blast
    obtain r2 where r2: "find_gid (quiescent cache) cache zgid None zattr = Some r2"
      using find_empty_slot by blast
    note add = roce_add_gid_active[OF Some True r1 r2]
    show ?thesis
    proof (cases "0 \<le> r1 \<or> r2 < 0")
      case True
      with assms add have "dev' = emit [MutexUnlock port] (emit [MutexLock port] dev)"
        by (auto split: if_splits)
      then show ?thesis by (simp only: locked_nothing)
    next
      case False
      with assms add obtain ret d2 where
        "write_gid (emit [MutexLock port] dev) port r2 g a = Some (ret, d2)"
        "dev' = emit [MutexUnlock port] d2"
        by (auto split: option.splits if_splits)
      then show ?thesis by (simp only: locked_write)
    qed
  qed
qed

lemma roce_del_gid_locked:
  assumes "roce_del_gid eui48 dev port g a = Some (r, dev')"
  shows "\<exists>ws. trace dev' = trace dev @ ws \<and> writes_locked [] ws"
proof (cases "the_cache dev port")
  case None
  with assms have "dev' = dev"
    by (auto simp: roce_del_gid_def split: option.splits)
  then show ?thesis by (simp add: unchanged_trace)
next
  case (Some cache)
  show ?thesis
  proof (cases "active cache")
    case False
    from ops_inactive(2)[OF Some False] assms have "dev' = dev" by simp
    then show ?thesis by (simp add: unchanged_trace)
  next
    case True
    note del = roce_del_gid_active[OF Some True, of eui48 g a]
    show ?thesis
    proof (cases "ndev a \<noteq> 0 \<and> g = make_default_gid eui48 (ndev a)")
      case True
      with assms del have "dev' = dev" by simp
      then show ?thesis by (simp add: unchanged_trace)
    next
      case nd: False
      obtain ix where ix: "find_gid (quiescent cache) cache g (Some a) roce_gid_type_netdev_msk = Some ix"
        using find_gid_total by blast
      show ?thesis
      proof (cases "ix < 0")
        case True
        with assms del nd ix have "dev' = emit [MutexUnlock port] (emit [MutexLock port] dev)"
          by auto
        then show ?thesis by (simp only: locked_nothing)
      next
        case False
        with assms del nd ix obtain ret d2 where
          "write_gid (emit [MutexLock port] dev) port ix zgid zattr = Some (ret, d2)"
          "dev' = emit [MutexUnlock port] d2"
          by (auto split: option.splits)
        then show ?thesis by (simp only: locked_write)
      qed
    qed
  qed
qed

lemma del_all_loop_trace:
  "del_all_loop d port nd ixs = Some d' \<Longrightarrow>
   \<exists>ws. trace d' = trace d @ ws \<and>
      (\<forall>held rest. writes_locked (port # held) (ws @ rest) = writes_locked (port # held) rest)"
proof (induction ixs arbitrary: d)
  case Nil
  then have "d' = d" by simp
  then show ?case by (intro exI[of _ "[]"]) simp
next
  case (Cons ix ixs)
  from Cons.prems obtain e where e: "slot d port (int ix) = Some e"
    by (auto split: option.splits)
  show ?case
  proof (cases "ndev (attr e) = nd")
    case False
    with Cons.prems e have "del_all_loop d port nd ixs = Some d'" by simp
    then show ?thesis by (rule Cons.IH)
  next
    case True
    with Cons.prems e obtain r d1 where
      w: "write_gid d port (int ix) zgid zattr = Some (r, d1)"
      and rest: "del_all_loop d1 port nd ixs = Some d'"
      by (auto split: option.splits)
    from write_gid_trace[OF w] obtain ws1 where
      1: "trace d1 = trace d @ ws1"
         "\<forall>held rest. writes_locked (port # held) (ws1 @ rest) = writes_locked (port # held) rest"
      by blast
    from Cons.IH[OF rest] obtain ws2 where
      2: "trace d' = trace d1 @ ws2"
         "\<forall>held rest. writes_locked (port # held) (ws2 @ rest) = writes_locked (port # held) rest"
      by blast
    show ?thesis
    proof (intro exI conjI allI)
      show "trace d' = trace d @ (ws1 @ ws2)" using 1(1) 2(1) by simp
      fix held rest
      show "writes_locked (port # held) ((ws1 @ ws2) @ rest) = writes_locked (port # held) rest"
        using 1(2) 2(2) by simp
    qed
  qed
qed

lemma roce_del_all_netdev_gids_locked:
  assumes "roce_del_all_netdev_gids dev port nd = Some (r, dev')"
  shows "\<exists>ws. trace dev' = trace dev @ ws \<and> writes_locked [] ws"
proof (cases "the_cache dev port")
  case None
  with assms have "dev' = dev"
    by (auto simp: roce_del_all_netdev_gids_def split: option.splits)
  then show ?thesis by (simp add: unchanged_trace)
next
  case (Some cache)
  show ?thesis
  proof (cases "active cache")
    case False
    from ops_inactive(3)[OF Some False] assms have "dev' = dev" by simp
    then show ?thesis by (simp add: unchanged_trace)
  next
    case True
    from the_cache_SomeD[OF Some] obtain arr where "roce_gid_cache dev = Some arr" ..
    with assms Some True obtain d2 where
      l: "del_all_loop (emit [MutexLock port] dev) port nd [0 ..< length (data_vec cache)] = Some d2"
      and d: "dev' = emit [MutexUnlock port] d2"
      by (auto simp: roce_del_all_netdev_gids_def split: option.splits)
    from del_all_loop_trace[OF l] obtain ws where
      "trace d2 = trace (emit [MutexLock port] dev) @ ws"
      "\<forall>held rest. writes_locked (port # held) (ws @ rest) = writes_locked (port # held) rest"
      by blast
    then have "\<exists>ws'. trace (emit [MutexUnlock port] d2) = trace dev @ ws' \<and> writes_locked [] ws'"
      by (rule locked_section)
    with d show ?thesis by simp
  qed
qed

text \<open>
  Add, Delete and DeleteAllForInterface call the driver only between \<open>mutex_lock\<close> and
  \<open>mutex_unlock\<close> on the port's table.
\<close>

lemma writers_hold_lock:
  "(roce_add_gid dev port g a = Some (r, dev') \<longrightarrow>
      (\<exists>ws. trace dev' = trace dev @ ws \<and> writes_locked [] ws)) \<and>
   (roce_del_gid eui48 dev port g a = Some (r, dev') \<longrightarrow>
      (\<exists>ws. trace dev' = trace dev @ ws \<and> writes_locked [] ws)) \<and>
   (roce_del_all_netdev_gids dev port nd = Some (r, dev') \<longrightarrow>
      (\<exists>ws. trace dev' = trace dev @ ws \<and> writes_locked [] ws))"
  using roce_add_gid_locked roce_del_gid_locked roce_del_all_netdev_gids_locked by blast

lemma set_default_dev2_trace:
  "map_option trace (roce_gid_cache_set_default_gid eui_zero 2 dev2 1 4096 1) =
     Some [ModifyGid 1 0 zgid zattr 0, GidChangeEvent 1,
           ModifyGid 1 0 (make_default_gid eui_zero 4096) \<lparr>gid_type = 0, ndev = 4096\<rparr> 0,
           DevHold 4096, GidChangeEvent 1]"
proof -
  have le: "(2::nat) \<le> 64" by simp
  show ?thesis
    by (simp add: set_default_gid_kinds[OF le the_cache_dev2] kinds_2_1)
       (simp add: eval_write dev2_def modify_ok_def)
qed

text \<open>
  C2 (does not hold for SetDefault).  \<open>roce_gid_cache_set_default_gid\<close> never takes the
  table's mutex: on a fresh two-slot table with the mask of kind 0 it calls the driver
  twice for slot 0, and its trace holds no \<open>MutexLock\<close>, so the driver calls are not inside
  a lock/unlock pair.
\<close>

theorem set_default_gid_takes_no_lock:
  "map_option trace (roce_gid_cache_set_default_gid eui_zero 2 dev2 1 4096 1) =
     Some [ModifyGid 1 0 zgid zattr 0, GidChangeEvent 1,
           ModifyGid 1 0 (make_default_gid eui_zero 4096) \<lparr>gid_type = 0, ndev = 4096\<rparr> 0,
           DevHold 4096, GidChangeEvent 1] \<and>
   \<not> writes_locked []
       [ModifyGid 1 0 zgid zattr 0, GidChangeEvent 1,
        ModifyGid 1 0 (make_default_gid eui_zero 4096) \<lparr>gid_type = 0, ndev = 4096\<rparr> 0,
        DevHold 4096, GidChangeEvent 1]"
  using set_default_dev2_trace by simp

text \<open>
  SetDefault does not test the \<open>active\<close> flag: on a table that is not active it writes
  slot 0 all the same, and on a device without the cache array it reads through the
  \<open>NULL\<close> array.
\<close>

lemma set_default_ignores_active:
  "map_option (\<lambda>d. the_cache d 1) (roce_gid_cache_set_default_gid eui_zero 2 dev_inactive 1 4096 1) =
     Some (Some \<lparr>data_vec =
        [\<lparr>seq = 4, gid = make_default_gid eui_zero 4096,
          attr = \<lparr>gid_type = 0, ndev = 4096\<rparr>, ctx = 0\<rparr>, zentry], active = False\<rparr>) \<and>
   roce_gid_cache_set_default_gid eui_zero 2 dev_none 1 4096 1 = None"
proof -
  have le: "(2::nat) \<le> 64" by simp
  have 1: "map_option (\<lambda>d. the_cache d 1) (roce_gid_cache_set_default_gid eui_zero 2 dev_inactive 1 4096 1) =
     Some (Some \<lparr>data_vec =
        [\<lparr>seq = 4, gid = make_default_gid eui_zero 4096,
          attr = \<lparr>gid_type = 0, ndev = 4096\<rparr>, ctx = 0\<rparr>, zentry], active = False\<rparr>)"
    by (simp add: set_default_gid_kinds[OF le the_cache_dev_inactive] kinds_2_1)
       (simp add: eval_write dev_inactive_def modify_ok_def)
  have 2: "roce_gid_cache_set_default_gid eui_zero 2 dev_none 1 4096 1 = None"
    by (simp add: roce_gid_cache_set_default_gid_def dev_none_def dev_of_def)
  from 1 2 show ?thesis ..
qed

end
